theory Spec2Isabelle
  imports Main
begin

section \<open>Errors\<close>

text \<open>
  The exceptions \<^verbatim>\<open>read_netcdf.py\<close> can raise, as values. \<open>SGridNonCompliantError\<close> is
  the exception of \<^verbatim>\<open>custom_exceptions\<close> raised at the end of
  \<^verbatim>\<open>load_grid_from_nc_dataset\<close>; the others are Python's built-in exceptions, with
  what they carry: the name of the attribute that is missing, the key that is missing
  (\<open>None\<close> can be used as a key), and for \<open>ValueError\<close> what raised it.
\<close>

datatype value_error =
    UnsupportedTopologyDimension int
  | UnpackLength nat

datatype error =
    SGridNonCompliantError
  | ValueError value_error
  | AttributeError string
  | KeyError "string option"
  | TypeError
  | IndexError

section \<open>Strings\<close>

text \<open>
  \<^verbatim>\<open>str.strip()\<close> removes leading and trailing whitespace; the ASCII characters Python 3
  counts as whitespace are 9 to 13, 28 to 31 and the blank.
\<close>

definition is_space :: "char \<Rightarrow> bool" where
  "is_space c = (let n = (of_char c :: nat) in (9 \<le> n \<and> n \<le> 13) \<or> (28 \<le> n \<and> n \<le> 32))"

definition strip :: "string \<Rightarrow> string" where
  "strip s = rev (dropWhile is_space (rev (dropWhile is_space s)))"

text \<open>
  \<^verbatim>\<open>s.split(' ')\<close>: the pieces between single blanks; two blanks in a row give an empty
  piece, and the empty string gives one empty piece.
\<close>

fun split_on :: "char \<Rightarrow> string \<Rightarrow> string list" where
  "split_on sep [] = [[]]"
| "split_on sep (c # cs) =
     (if c = sep then [] # split_on sep cs
      else (case split_on sep cs of
              [] \<Rightarrow> [[c]]
            | w # ws \<Rightarrow> (c # w) # ws))"

text \<open>\<^verbatim>\<open>str.lower()\<close> on ASCII letters.\<close>

definition lower_char :: "char \<Rightarrow> char" where
  "lower_char c =
     (case map_of (zip ''ABCDEFGHIJKLMNOPQRSTUVWXYZ'' ''abcdefghijklmnopqrstuvwxyz'') c of
        None \<Rightarrow> c
      | Some l \<Rightarrow> l)"

definition lower :: "string \<Rightarrow> string" where
  "lower s = map lower_char s"

text \<open>\<^verbatim>\<open>sub in s\<close>: \<open>sub\<close> occurs in \<open>s\<close> as a contiguous piece.\<close>

fun contains :: "string \<Rightarrow> string \<Rightarrow> bool" where
  "contains [] sub = (sub = [])"
| "contains (c # cs) sub = (take (length sub) (c # cs) = sub \<or> contains cs sub)"

section \<open>The dataset\<close>

text \<open>
  A \<^verbatim>\<open>netCDF4.Variable\<close>: its dimension names, the array it holds (\<^verbatim>\<open>var[:]\<close>) and its
  attributes. The attributes are typed as the SGRID convention defines them:
  \<^verbatim>\<open>topology_dimension\<close> is an integer, every other attribute the code reads
  (\<^verbatim>\<open>cf_role\<close>, \<^verbatim>\<open>location\<close>, \<^verbatim>\<open>coordinates\<close>, \<^verbatim>\<open>standard_name\<close>, \<^verbatim>\<open>long_name\<close>, \<^verbatim>\<open>grid\<close>
  and the topology variable's \<^verbatim>\<open>*_dimensions\<close> and \<^verbatim>\<open>*_coordinates\<close>) is text. Reading an
  attribute the variable does not have raises \<^verbatim>\<open>AttributeError\<close>.

  A \<^verbatim>\<open>netCDF4.Dataset\<close>: \<^verbatim>\<open>dimensions\<close> and \<^verbatim>\<open>variables\<close> are ordered dictionaries,
  here lists of (key, value) pairs in iteration order; a dimension is held by its
  length. \<^verbatim>\<open>Variable.name\<close> is the key the dataset holds the variable under.
\<close>

record 'a nc_variable =
  var_dimensions :: "string list"
  var_topology_dimension :: "int option"
  var_attributes :: "string \<rightharpoonup> string"
  var_data :: 'a

record 'a nc_dataset =
  nc_dimensions :: "(string \<times> nat) list"
  nc_variables :: "(string \<times> 'a nc_variable) list"

definition getattr :: "'a nc_variable \<Rightarrow> string \<Rightarrow> error + string" where
  "getattr v k = (case var_attributes v k of None \<Rightarrow> Inl (AttributeError k) | Some s \<Rightarrow> Inr s)"

text \<open>\<^verbatim>\<open>nc_dataset.variables[key]\<close>; a missing key raises \<^verbatim>\<open>KeyError\<close>.\<close>

definition get_variable :: "'a nc_dataset \<Rightarrow> string option \<Rightarrow> error + 'a nc_variable" where
  "get_variable ds key =
     (case key of
        None \<Rightarrow> Inl (KeyError None)
      | Some k \<Rightarrow> (case map_of (nc_variables ds) k of
                    None \<Rightarrow> Inl (KeyError (Some k))
                  | Some v \<Rightarrow> Inr v))"

section \<open>class NetCDFDataset\<close>

subsection \<open>find_grid_topology_vars, sgrid_compliant_file\<close>

text \<open>
  The loop of \<^verbatim>\<open>find_grid_topology_vars\<close> over \<^verbatim>\<open>nc_vars.keys()\<close>. Only the read of
  \<^verbatim>\<open>cf_role\<close> stands inside the \<^verbatim>\<open>try\<close>: a variable without it is passed over
  (\<^verbatim>\<open>cf_role = None\<close>), and for a variable that has it \<^verbatim>\<open>topology_dimension\<close> is read in
  the \<^verbatim>\<open>else\<close> branch, where a missing attribute raises.
\<close>

fun grid_topology_vars_loop ::
  "(string \<times> 'a nc_variable) list \<Rightarrow> string list \<Rightarrow> error + string list" where
  "grid_topology_vars_loop [] grid_topology_vars = Inr grid_topology_vars"
| "grid_topology_vars_loop ((nc_var, nc_var_obj) # rest) grid_topology_vars =
     (case var_attributes nc_var_obj ''cf_role'' of
        None \<Rightarrow> grid_topology_vars_loop rest grid_topology_vars
      | Some cf_role \<Rightarrow>
          (case var_topology_dimension nc_var_obj of
             None \<Rightarrow> Inl (AttributeError ''topology_dimension'')
           | Some topology_dim \<Rightarrow>
               if strip cf_role = ''grid_topology'' \<and> topology_dim \<ge> 2
               then grid_topology_vars_loop rest (grid_topology_vars @ [nc_var])
               else grid_topology_vars_loop rest grid_topology_vars))"

definition find_grid_topology_vars :: "'a nc_dataset \<Rightarrow> error + string option" where
  "find_grid_topology_vars ds =
     (case grid_topology_vars_loop (nc_variables ds) [] of
        Inl e \<Rightarrow> Inl e
      | Inr [] \<Rightarrow> Inr None
      | Inr (grid_topology_var # _) \<Rightarrow> Inr (Some grid_topology_var))"

definition sgrid_compliant_file :: "'a nc_dataset \<Rightarrow> error + bool" where
  "sgrid_compliant_file ds =
     (case find_grid_topology_vars ds of
        Inl e \<Rightarrow> Inl e
      | Inr grid_vars \<Rightarrow> Inr (grid_vars \<noteq> None))"

subsection \<open>search_variables_by_location\<close>

definition search_variables_by_location :: "'a nc_dataset \<Rightarrow> string \<Rightarrow> string list" where
  "search_variables_by_location ds location_str =
     map fst (filter (\<lambda>(nc_var, nc_var_obj). var_attributes nc_var_obj ''location'' = Some location_str)
                (nc_variables ds))"

subsection \<open>find_coordinates_by_location\<close>

text \<open>The three names the method fills: \<^verbatim>\<open>x_coordinate\<close>, \<^verbatim>\<open>y_coordinate\<close>, \<^verbatim>\<open>z_coordinate\<close>.\<close>

type_synonym slots = "string option \<times> string option \<times> string option"

text \<open>
  The \<^verbatim>\<open>except AttributeError\<close> branch (the location variable has no \<^verbatim>\<open>coordinates\<close>):
  first the names of the potential coordinates, then their classification by name.
\<close>

definition potential_coordinates :: "'a nc_dataset \<Rightarrow> string \<Rightarrow> string list \<Rightarrow> string list" where
  "potential_coordinates ds var_with_location location_var_dims =
     map fst (filter (\<lambda>(nc_var, nc_var_obj).
                  set (var_dimensions nc_var_obj) \<subseteq> set location_var_dims \<and>
                  nc_var \<noteq> var_with_location \<and>
                  card (set (var_dimensions nc_var_obj)) > 0)
                (nc_variables ds))"

fun classify_by_name :: "slots \<Rightarrow> string \<Rightarrow> slots" where
  "classify_by_name (x_coordinate, y_coordinate, z_coordinate) pc_name =
     (if contains (lower pc_name) ''lon'' then (Some pc_name, y_coordinate, z_coordinate)
      else if contains (lower pc_name) ''lat'' then (x_coordinate, Some pc_name, z_coordinate)
      else (x_coordinate, y_coordinate, Some pc_name))"

text \<open>
  The \<^verbatim>\<open>else\<close> branch (the location variable has \<^verbatim>\<open>coordinates\<close>): each name of the
  attribute is looked up in the dataset (\<^verbatim>\<open>KeyError\<close> when it names no variable) and
  classified by the variable's \<^verbatim>\<open>standard_name\<close>, or by its name when it has none.
\<close>

fun classify_coordinate :: "'a nc_dataset \<Rightarrow> slots \<Rightarrow> string \<Rightarrow> error + slots" where
  "classify_coordinate ds (x_coordinate, y_coordinate, z_coordinate) lvc =
     (case get_variable ds (Some lvc) of
        Inl e \<Rightarrow> Inl e
      | Inr var_coord \<Rightarrow>
          (case var_attributes var_coord ''standard_name'' of
             None \<Rightarrow>
               if contains (lower lvc) ''lon'' then Inr (Some lvc, y_coordinate, z_coordinate)
               else if contains (lower lvc) ''lat'' then Inr (x_coordinate, Some lvc, z_coordinate)
               else Inr (x_coordinate, y_coordinate, z_coordinate)
           | Some var_coord_standard_name \<Rightarrow>
               if var_coord_standard_name = ''longitude''
               then Inr (Some lvc, y_coordinate, z_coordinate)
               else if var_coord_standard_name = ''latitude''
               then Inr (x_coordinate, Some lvc, z_coordinate)
               else Inr (x_coordinate, y_coordinate, z_coordinate)))"

fun classify_coordinates :: "'a nc_dataset \<Rightarrow> slots \<Rightarrow> string list \<Rightarrow> error + slots" where
  "classify_coordinates ds s [] = Inr s"
| "classify_coordinates ds s (lvc # lvc_split) =
     (case classify_coordinate ds s lvc of
        Inl e \<Rightarrow> Inl e
      | Inr s' \<Rightarrow> classify_coordinates ds s' lvc_split)"

definition classify_by_attribute :: "'a nc_dataset \<Rightarrow> slots \<Rightarrow> string \<Rightarrow> error + slots" where
  "classify_by_attribute ds s location_var_coordinates =
     (let lvc_split = split_on CHR '' '' (strip location_var_coordinates) in
      case classify_coordinates ds s lvc_split of
        Inl e \<Rightarrow> Inl e
      | Inr (x_coordinate, y_coordinate, z_coordinate) \<Rightarrow>
          Inr (if length lvc_split = 3
               then (x_coordinate, y_coordinate, Some (last lvc_split))
               else (x_coordinate, y_coordinate, z_coordinate)))"

text \<open>
  The loop over \<^verbatim>\<open>vars_with_location\<close>. The \<^verbatim>\<open>break\<close> stands at the end of the
  \<^verbatim>\<open>else\<close> branch only: a variable with \<^verbatim>\<open>coordinates\<close> ends the loop, one without it
  does not.
\<close>

fun location_loop :: "'a nc_dataset \<Rightarrow> slots \<Rightarrow> string list \<Rightarrow> error + slots" where
  "location_loop ds s [] = Inr s"
| "location_loop ds s (var_with_location # rest) =
     (case get_variable ds (Some var_with_location) of
        Inl e \<Rightarrow> Inl e
      | Inr location_var \<Rightarrow>
          (case var_attributes location_var ''coordinates'' of
             None \<Rightarrow>
               location_loop ds
                 (foldl classify_by_name s
                    (potential_coordinates ds var_with_location (var_dimensions location_var)))
                 rest
           | Some location_var_coordinates \<Rightarrow>
               classify_by_attribute ds s location_var_coordinates))"

text \<open>
  \<^verbatim>\<open>all(coordinates)\<close>: every slot holds a name, and no name is the empty string (which
  Python counts as false).
\<close>

fun all_names :: "string option list \<Rightarrow> string list option" where
  "all_names [] = Some []"
| "all_names (None # cs) = None"
| "all_names (Some c # cs) =
     (if c = [] then None
      else (case all_names cs of None \<Rightarrow> None | Some ns \<Rightarrow> Some (c # ns)))"

definition find_coordinates_by_location ::
  "'a nc_dataset \<Rightarrow> string \<Rightarrow> int \<Rightarrow> error + string list option" where
  "find_coordinates_by_location ds location_str topology_dim =
     (case location_loop ds (None, None, None) (search_variables_by_location ds location_str) of
        Inl e \<Rightarrow> Inl e
      | Inr (x_coordinate, y_coordinate, z_coordinate) \<Rightarrow>
          Inr (all_names (if topology_dim = 2
                          then [x_coordinate, y_coordinate]
                          else [x_coordinate, y_coordinate, z_coordinate])))"

section \<open>The Grid Model\<close>

text \<open>
  Modelled from the spec: the Grid Model object the loader fills (class \<^verbatim>\<open>SGrid\<close> of
  \<^verbatim>\<open>sgrid.py\<close>, which is not among the sources). It is the object's attributes, one
  field for each attribute \<^verbatim>\<open>read_netcdf.py\<close> assigns, reads or deletes. An attribute is
  absent (deleted, or never there), unset (\<^verbatim>\<open>None\<close>) or set to a value: the spec's "absent
  (not merely unset)". Assigning makes it set; \<^verbatim>\<open>del\<close> makes it absent and raises
  \<^verbatim>\<open>AttributeError\<close> when it is absent already, and so does reading an absent attribute,
  as Python does for an object without the attribute.

  \<^verbatim>\<open>add_property(name, value)\<close> stores a Variable Descriptor under the variable's name
  (the spec's mapping from variable names to descriptors), kept here in \<open>properties\<close>.
  The descriptor \<^verbatim>\<open>SGridVariable.create_variable\<close> builds (\<^verbatim>\<open>variables.py\<close>, not among the
  sources either) is the spec's: the variable's name and its center slicing.
\<close>

datatype 'v attr = Absent | Unset | Value 'v

record 's sgrid_variable =
  variable :: string
  center_slicing :: 's

record ('a, 'p, 'c, 's) sgrid =
  dimensions :: "(string \<times> nat) list attr"
  grid_topology_vars :: "string attr"
  topology_dimension :: "int attr"
  node_dimensions :: "string attr"
  node_coordinates :: "string option list attr"
  edge1_dimension :: "string attr"
  edge1_padding :: "'p attr"
  edge1_coordinates :: "string list attr"
  edge2_dimension :: "string attr"
  edge2_padding :: "'p attr"
  edge2_coordinates :: "string list attr"
  edge3_dimension :: "string attr"
  edge3_dimensions :: "string attr"
  edge3_padding :: "'p attr"
  edge3_coordinates :: "string list attr"
  face_dimensions :: "string attr"
  face_padding :: "'p attr"
  face_coordinates :: "string list attr"
  vertical_dimensions :: "string attr"
  vertical_padding :: "'p attr"
  face1_dimensions :: "string attr"
  face1_padding :: "'p attr"
  face1_coordinates :: "string list attr"
  face2_dimensions :: "string attr"
  face2_padding :: "'p attr"
  face2_coordinates :: "string list attr"
  face3_dimensions :: "string attr"
  face3_padding :: "'p attr"
  face3_coordinates :: "string list attr"
  volume_dimensions :: "string attr"
  volume_padding :: "'p attr"
  volume_coordinates :: "string list attr"
  centers :: "'c attr"
  nodes :: "'c attr"
  angles :: "'a attr"
  grid_times :: "'a attr"
  variables :: "string list attr"
  grid_variables :: "string list attr"
  properties :: "string \<rightharpoonup> 's sgrid_variable"

text \<open>
  \<^verbatim>\<open>del grid.name\<close>, given the attribute's name, its field and the field's update.
\<close>

definition del_attr ::
  "string \<Rightarrow> ('g \<Rightarrow> 'v attr) \<Rightarrow> (('v attr \<Rightarrow> 'v attr) \<Rightarrow> 'g \<Rightarrow> 'g) \<Rightarrow> 'g \<Rightarrow> error + 'g" where
  "del_attr name field field_update grid =
     (case field grid of
        Absent \<Rightarrow> Inl (AttributeError name)
      | _ \<Rightarrow> Inr (field_update (\<lambda>_. Absent) grid))"

text \<open>
  What \<^verbatim>\<open>read_netcdf.py\<close> imports from modules that are not among the sources, taken as
  parameters: \<^verbatim>\<open>ParsePadding(topology_variable).parse_padding(text)\<close>, \<^verbatim>\<open>pair_arrays\<close> and
  \<^verbatim>\<open>determine_variable_slicing(sgrid, nc_dataset, variable, method='center')\<close> of
  \<^verbatim>\<open>utils\<close>, and the two collections of long names of \<^verbatim>\<open>lookup\<close>. The three functions
  are taken to return a value on every input.
\<close>

record ('a, 'p, 'c, 's) externals =
  parse_padding :: "string \<Rightarrow> string \<Rightarrow> 'p"
  pair_arrays :: "'a \<Rightarrow> 'a \<Rightarrow> 'c"
  determine_variable_slicing :: "('a, 'p, 'c, 's) sgrid \<Rightarrow> 'a nc_dataset \<Rightarrow> string \<Rightarrow> 's"
  LON_GRID_CELL_NODE_LONG_NAME :: "string list"
  LAT_GRID_CELL_NODE_LONG_NAME :: "string list"

subsection \<open>find_grid_cell_node_vars\<close>

fun grid_cell_node_vars_loop ::
  "('a, 'p, 'c, 's) externals \<Rightarrow> (string \<times> 'a nc_variable) list \<Rightarrow>
   string option \<times> string option \<Rightarrow> string option \<times> string option" where
  "grid_cell_node_vars_loop X [] found = found"
| "grid_cell_node_vars_loop X ((nc_var, nc_var_obj) # rest) (grid_cell_node_lon, grid_cell_node_lat) =
     (case var_attributes nc_var_obj ''long_name'' of
        None \<Rightarrow> grid_cell_node_vars_loop X rest (grid_cell_node_lon, grid_cell_node_lat)
      | Some nc_var_long_name \<Rightarrow>
          grid_cell_node_vars_loop X rest
            (if nc_var_long_name \<in> set (LON_GRID_CELL_NODE_LONG_NAME X)
             then Some nc_var else grid_cell_node_lon,
             if nc_var_long_name \<in> set (LAT_GRID_CELL_NODE_LONG_NAME X)
             then Some nc_var else grid_cell_node_lat))"

definition find_grid_cell_node_vars ::
  "('a, 'p, 'c, 's) externals \<Rightarrow> 'a nc_dataset \<Rightarrow> string option \<times> string option" where
  "find_grid_cell_node_vars X ds = grid_cell_node_vars_loop X (nc_variables ds) (None, None)"

section \<open>class SGridND\<close>

text \<open>
  The methods of \<^verbatim>\<open>SGridND\<close> and its two subclasses change the grid they were built with.
  Each is a function from the grid to the grid, or to an error where it can raise; its
  other arguments are what \<^verbatim>\<open>self\<close> holds: the dataset, the name of the topology variable
  and the variable itself. A sequence of calls is \<open>run_steps\<close>, which stops at the first
  error as the exception does.
\<close>

fun run_steps :: "('g \<Rightarrow> error + 'g) list \<Rightarrow> 'g \<Rightarrow> error + 'g" where
  "run_steps [] grid = Inr grid"
| "run_steps (step # steps) grid =
     (case step grid of
        Inl e \<Rightarrow> Inl e
      | Inr grid' \<Rightarrow> run_steps steps grid')"

definition returns :: "('g \<Rightarrow> 'g) \<Rightarrow> 'g \<Rightarrow> error + 'g" where
  "returns method grid = Inr (method grid)"

definition set_dimensions ::
  "'a nc_dataset \<Rightarrow> ('a, 'p, 'c, 's) sgrid \<Rightarrow> ('a, 'p, 'c, 's) sgrid" where
  "set_dimensions ds grid = grid\<lparr>dimensions := Value (nc_dimensions ds)\<rparr>"

definition set_topology_dimension ::
  "int \<Rightarrow> ('a, 'p, 'c, 's) sgrid \<Rightarrow> ('a, 'p, 'c, 's) sgrid" where
  "set_topology_dimension topology_dim grid = grid\<lparr>topology_dimension := Value topology_dim\<rparr>"

definition set_edge1_dimensions ::
  "('a, 'p, 'c, 's) externals \<Rightarrow> string \<Rightarrow> 'a nc_variable \<Rightarrow>
   ('a, 'p, 'c, 's) sgrid \<Rightarrow> ('a, 'p, 'c, 's) sgrid" where
  "set_edge1_dimensions X topology_variable topology_var grid =
     (case var_attributes topology_var ''edge1_dimensions'' of
        None \<Rightarrow> grid
      | Some edge1_dim \<Rightarrow>
          grid\<lparr>edge1_dimension := Value edge1_dim,
               edge1_padding := Value (parse_padding X topology_variable edge1_dim)\<rparr>)"

definition set_edge1_coordinates ::
  "'a nc_variable \<Rightarrow> ('a, 'p, 'c, 's) sgrid \<Rightarrow> ('a, 'p, 'c, 's) sgrid" where
  "set_edge1_coordinates topology_var grid =
     (case var_attributes topology_var ''edge1_coordinates'' of
        None \<Rightarrow> grid
      | Some edge1_coordinates' \<Rightarrow>
          grid\<lparr>edge1_coordinates := Value (split_on CHR '' '' edge1_coordinates')\<rparr>)"

definition set_edge2_dimensions ::
  "('a, 'p, 'c, 's) externals \<Rightarrow> string \<Rightarrow> 'a nc_variable \<Rightarrow>
   ('a, 'p, 'c, 's) sgrid \<Rightarrow> ('a, 'p, 'c, 's) sgrid" where
  "set_edge2_dimensions X topology_variable topology_var grid =
     (case var_attributes topology_var ''edge2_dimensions'' of
        None \<Rightarrow> grid
      | Some edge2_dim \<Rightarrow>
          grid\<lparr>edge2_dimension := Value edge2_dim,
               edge2_padding := Value (parse_padding X topology_variable edge2_dim)\<rparr>)"

definition set_edge2_coordinates ::
  "'a nc_variable \<Rightarrow> ('a, 'p, 'c, 's) sgrid \<Rightarrow> ('a, 'p, 'c, 's) sgrid" where
  "set_edge2_coordinates topology_var grid =
     (case var_attributes topology_var ''edge2_coordinates'' of
        None \<Rightarrow> grid
      | Some edge2_coordinates' \<Rightarrow>
          grid\<lparr>edge2_coordinates := Value (split_on CHR '' '' edge2_coordinates')\<rparr>)"

definition set_all_edge_attributes ::
  "('a, 'p, 'c, 's) externals \<Rightarrow> string \<Rightarrow> 'a nc_variable \<Rightarrow>
   ('a, 'p, 'c, 's) sgrid \<Rightarrow> ('a, 'p, 'c, 's) sgrid" where
  "set_all_edge_attributes X topology_variable topology_var grid =
     set_edge2_coordinates topology_var
       (set_edge2_dimensions X topology_variable topology_var
          (set_edge1_coordinates topology_var
             (set_edge1_dimensions X topology_variable topology_var grid)))"

definition set_sgrid_topology ::
  "'a nc_variable \<Rightarrow> ('a, 'p, 'c, 's) sgrid \<Rightarrow> error + ('a, 'p, 'c, 's) sgrid" where
  "set_sgrid_topology topology_var grid =
     (case var_topology_dimension topology_var of
        None \<Rightarrow> Inl (AttributeError ''topology_dimension'')
      | Some topology_dim \<Rightarrow> Inr (grid\<lparr>topology_dimension := Value topology_dim\<rparr>))"

definition set_sgrid_node_coordinates ::
  "('a, 'p, 'c, 's) externals \<Rightarrow> 'a nc_dataset \<Rightarrow> 'a nc_variable \<Rightarrow>
   ('a, 'p, 'c, 's) sgrid \<Rightarrow> error + ('a, 'p, 'c, 's) sgrid" where
  "set_sgrid_node_coordinates X ds topology_var grid =
     (case var_attributes topology_var ''node_dimensions'' of
        None \<Rightarrow> Inl (AttributeError ''node_dimensions'')
      | Some node_dims \<Rightarrow>
          (case var_attributes topology_var ''node_coordinates'' of
             None \<Rightarrow>
               (case find_grid_cell_node_vars X ds of
                  (grid_cell_node_lon, grid_cell_node_lat) \<Rightarrow>
                    Inr (grid\<lparr>node_dimensions := Value node_dims,
                              node_coordinates := Value [grid_cell_node_lon, grid_cell_node_lat]\<rparr>))
           | Some node_coordinates' \<Rightarrow>
               Inr (grid\<lparr>node_dimensions := Value node_dims,
                         node_coordinates :=
                           Value (map Some (split_on CHR '' '' node_coordinates'))\<rparr>)))"

text \<open>
  \<^verbatim>\<open>set_sgrid_variable_attributes\<close>: the loop adds a descriptor for each variable, its
  slicing computed from the grid as it stands at that moment; then the two lists of names
  are assigned.
\<close>

fun variable_attributes_loop ::
  "('a, 'p, 'c, 's) externals \<Rightarrow> 'a nc_dataset \<Rightarrow> (string \<times> 'a nc_variable) list \<Rightarrow>
   ('a, 'p, 'c, 's) sgrid \<Rightarrow> ('a, 'p, 'c, 's) sgrid" where
  "variable_attributes_loop X ds [] grid = grid"
| "variable_attributes_loop X ds ((nc_variable, nc_var) # rest) grid =
     variable_attributes_loop X ds rest
       (grid\<lparr>properties := (properties grid)(nc_variable \<mapsto>
                \<lparr>variable = nc_variable,
                 center_slicing = determine_variable_slicing X grid ds nc_variable\<rparr>)\<rparr>)"

definition set_sgrid_variable_attributes ::
  "('a, 'p, 'c, 's) externals \<Rightarrow> 'a nc_dataset \<Rightarrow>
   ('a, 'p, 'c, 's) sgrid \<Rightarrow> ('a, 'p, 'c, 's) sgrid" where
  "set_sgrid_variable_attributes X ds grid =
     (variable_attributes_loop X ds (nc_variables ds) grid)
       \<lparr>variables := Value (map fst (nc_variables ds)),
        grid_variables :=
          Value (map fst (filter (\<lambda>(nc_variable, nc_var). var_attributes nc_var ''grid'' \<noteq> None)
                            (nc_variables ds)))\<rparr>"

definition set_sgrid_angles ::
  "'a nc_dataset \<Rightarrow> ('a, 'p, 'c, 's) sgrid \<Rightarrow> ('a, 'p, 'c, 's) sgrid" where
  "set_sgrid_angles ds grid =
     (case get_variable ds (Some ''angle'') of
        Inl e \<Rightarrow> grid
      | Inr angle \<Rightarrow> grid\<lparr>angles := Value (var_data angle)\<rparr>)"

definition set_sgrid_time ::
  "'a nc_dataset \<Rightarrow> ('a, 'p, 'c, 's) sgrid \<Rightarrow> error + ('a, 'p, 'c, 's) sgrid" where
  "set_sgrid_time ds grid =
     (case get_variable ds (Some ''time'') of
        Inr grid_time \<Rightarrow> Inr (grid\<lparr>grid_times := Value (var_data grid_time)\<rparr>)
      | Inl e \<Rightarrow>
          (case get_variable ds (Some ''Times'') of
             Inr grid_time \<Rightarrow> Inr (grid\<lparr>grid_times := Value (var_data grid_time)\<rparr>)
           | Inl e' \<Rightarrow> Inl e'))"

section \<open>class SGrid2D\<close>

definition set_face_dimensions ::
  "('a, 'p, 'c, 's) externals \<Rightarrow> string \<Rightarrow> 'a nc_variable \<Rightarrow>
   ('a, 'p, 'c, 's) sgrid \<Rightarrow> ('a, 'p, 'c, 's) sgrid" where
  "set_face_dimensions X topology_variable topology_var grid =
     (case var_attributes topology_var ''face_dimensions'' of
        None \<Rightarrow> grid
      | Some face_dim \<Rightarrow>
          grid\<lparr>face_dimensions := Value face_dim,
               face_padding := Value (parse_padding X topology_variable face_dim)\<rparr>)"

definition set_sgrid_vertical_dimensions ::
  "('a, 'p, 'c, 's) externals \<Rightarrow> string \<Rightarrow> 'a nc_variable \<Rightarrow>
   ('a, 'p, 'c, 's) sgrid \<Rightarrow> ('a, 'p, 'c, 's) sgrid" where
  "set_sgrid_vertical_dimensions X topology_variable topology_var grid =
     (case var_attributes topology_var ''vertical_dimensions'' of
        None \<Rightarrow> grid
      | Some vertical_dim \<Rightarrow>
          grid\<lparr>vertical_dimensions := Value vertical_dim,
               vertical_padding := Value (parse_padding X topology_variable vertical_dim)\<rparr>)"

definition set_face_coordindates ::
  "'a nc_dataset \<Rightarrow> 'a nc_variable \<Rightarrow>
   ('a, 'p, 'c, 's) sgrid \<Rightarrow> error + ('a, 'p, 'c, 's) sgrid" where
  "set_face_coordindates ds topology_var grid =
     (case var_attributes topology_var ''face_coordinates'' of
        None \<Rightarrow>
          (case find_coordinates_by_location ds ''face'' 2 of
             Inl e \<Rightarrow> Inl e
           | Inr None \<Rightarrow> Inr (grid\<lparr>face_coordinates := Unset\<rparr>)
           | Inr (Some grid_cell_center_vars) \<Rightarrow>
               Inr (grid\<lparr>face_coordinates := Value grid_cell_center_vars\<rparr>))
      | Some face_coordinates' \<Rightarrow>
          Inr (grid\<lparr>face_coordinates := Value (split_on CHR '' '' face_coordinates')\<rparr>))"

definition sgrid2d_set_all_face_attributes ::
  "('a, 'p, 'c, 's) externals \<Rightarrow> 'a nc_dataset \<Rightarrow> string \<Rightarrow> 'a nc_variable \<Rightarrow>
   ('a, 'p, 'c, 's) sgrid \<Rightarrow> error + ('a, 'p, 'c, 's) sgrid" where
  "sgrid2d_set_all_face_attributes X ds topology_variable topology_var grid =
     set_face_coordindates ds topology_var
       (set_face_dimensions X topology_variable topology_var grid)"

text \<open>
  \<^verbatim>\<open>lon_var, lat_var = self._sgrid.face_coordinates\<close> needs a sequence of two names:
  \<^verbatim>\<open>None\<close> raises \<^verbatim>\<open>TypeError\<close>, another length \<^verbatim>\<open>ValueError\<close>. The latitude variable
  is looked up first.
\<close>

definition sgrid2d_set_cell_center_lat_lon ::
  "('a, 'p, 'c, 's) externals \<Rightarrow> 'a nc_dataset \<Rightarrow>
   ('a, 'p, 'c, 's) sgrid \<Rightarrow> error + ('a, 'p, 'c, 's) sgrid" where
  "sgrid2d_set_cell_center_lat_lon X ds grid =
     (case face_coordinates grid of
        Absent \<Rightarrow> Inl (AttributeError ''face_coordinates'')
      | Unset \<Rightarrow> Inl TypeError
      | Value [grid_cell_center_lon_var, grid_cell_center_lat_var] \<Rightarrow>
          (case get_variable ds (Some grid_cell_center_lat_var) of
             Inl e \<Rightarrow> Inl e
           | Inr grid_cell_center_lat \<Rightarrow>
               (case get_variable ds (Some grid_cell_center_lon_var) of
                  Inl e \<Rightarrow> Inl e
                | Inr grid_cell_center_lon \<Rightarrow>
                    Inr (grid\<lparr>centers := Value (pair_arrays X (var_data grid_cell_center_lon)
                                                  (var_data grid_cell_center_lat))\<rparr>)))
      | Value coordinates \<Rightarrow> Inl (ValueError (UnpackLength (length coordinates))))"

definition sgrid2d_set_cell_node_lat_lon ::
  "('a, 'p, 'c, 's) externals \<Rightarrow> 'a nc_dataset \<Rightarrow>
   ('a, 'p, 'c, 's) sgrid \<Rightarrow> error + ('a, 'p, 'c, 's) sgrid" where
  "sgrid2d_set_cell_node_lat_lon X ds grid =
     (case node_coordinates grid of
        Absent \<Rightarrow> Inl (AttributeError ''node_coordinates'')
      | Unset \<Rightarrow> Inl TypeError
      | Value [grid_cell_nodes_lon_var, grid_cell_nodes_lat_var] \<Rightarrow>
          (case get_variable ds grid_cell_nodes_lat_var of
             Inl e \<Rightarrow> Inl e
           | Inr grid_cell_nodes_lat \<Rightarrow>
               (case get_variable ds grid_cell_nodes_lon_var of
                  Inl e \<Rightarrow> Inl e
                | Inr grid_cell_nodes_lon \<Rightarrow>
                    Inr (grid\<lparr>nodes := Value (pair_arrays X (var_data grid_cell_nodes_lon)
                                                (var_data grid_cell_nodes_lat))\<rparr>)))
      | Value coordinates \<Rightarrow> Inl (ValueError (UnpackLength (length coordinates))))"

definition sgrid2d_delete_nd_attributes ::
  "('a, 'p, 'c, 's) sgrid \<Rightarrow> error + ('a, 'p, 'c, 's) sgrid" where
  "sgrid2d_delete_nd_attributes =
     run_steps
       [del_attr ''volume_padding'' volume_padding volume_padding_update,
        del_attr ''volume_dimensions'' volume_dimensions volume_dimensions_update,
        del_attr ''volume_coordinates'' volume_coordinates volume_coordinates_update,
        del_attr ''face1_padding'' face1_padding face1_padding_update,
        del_attr ''face1_coordinates'' face1_coordinates face1_coordinates_update,
        del_attr ''face1_dimensions'' face1_dimensions face1_dimensions_update,
        del_attr ''face2_padding'' face2_padding face2_padding_update,
        del_attr ''face2_coordinates'' face2_coordinates face2_coordinates_update,
        del_attr ''face2_dimensions'' face2_dimensions face2_dimensions_update,
        del_attr ''face3_padding'' face3_padding face3_padding_update,
        del_attr ''face3_coordinates'' face3_coordinates face3_coordinates_update,
        del_attr ''face3_dimensions'' face3_dimensions face3_dimensions_update,
        del_attr ''edge3_padding'' edge3_padding edge3_padding_update,
        del_attr ''edge3_coordinates'' edge3_coordinates edge3_coordinates_update,
        del_attr ''edge3_dimensions'' edge3_dimensions edge3_dimensions_update]"

section \<open>class SGrid3D\<close>

definition set_volume_dimensions ::
  "('a, 'p, 'c, 's) externals \<Rightarrow> string \<Rightarrow> 'a nc_variable \<Rightarrow>
   ('a, 'p, 'c, 's) sgrid \<Rightarrow> ('a, 'p, 'c, 's) sgrid" where
  "set_volume_dimensions X topology_variable topology_var grid =
     (case var_attributes topology_var ''volume_dimensions'' of
        None \<Rightarrow> grid
      | Some vol_dim \<Rightarrow>
          grid\<lparr>volume_dimensions := Value vol_dim,
               volume_padding := Value (parse_padding X topology_variable vol_dim)\<rparr>)"

definition set_volume_coordinates ::
  "'a nc_dataset \<Rightarrow> 'a nc_variable \<Rightarrow>
   ('a, 'p, 'c, 's) sgrid \<Rightarrow> error + ('a, 'p, 'c, 's) sgrid" where
  "set_volume_coordinates ds topology_var grid =
     (case var_attributes topology_var ''volume_coordinates'' of
        None \<Rightarrow>
          (case find_coordinates_by_location ds ''volume'' 3 of
             Inl e \<Rightarrow> Inl e
           | Inr None \<Rightarrow> Inr (grid\<lparr>volume_coordinates := Unset\<rparr>)
           | Inr (Some grid_cell_center_vars) \<Rightarrow>
               Inr (grid\<lparr>volume_coordinates := Value grid_cell_center_vars\<rparr>))
      | Some volume_coordinates' \<Rightarrow>
          Inr (grid\<lparr>volume_coordinates := Value (split_on CHR '' '' volume_coordinates')\<rparr>))"

text \<open>The method assigns \<^verbatim>\<open>edge3_dimension\<close>, as the two methods for the other edges do.\<close>

definition set_edge3_dimensions ::
  "('a, 'p, 'c, 's) externals \<Rightarrow> string \<Rightarrow> 'a nc_variable \<Rightarrow>
   ('a, 'p, 'c, 's) sgrid \<Rightarrow> ('a, 'p, 'c, 's) sgrid" where
  "set_edge3_dimensions X topology_variable topology_var grid =
     (case var_attributes topology_var ''edge3_dimensions'' of
        None \<Rightarrow> grid
      | Some edge3_dim \<Rightarrow>
          grid\<lparr>edge3_dimension := Value edge3_dim,
               edge3_padding := Value (parse_padding X topology_variable edge3_dim)\<rparr>)"

definition set_edge3_coordinates ::
  "'a nc_variable \<Rightarrow> ('a, 'p, 'c, 's) sgrid \<Rightarrow> ('a, 'p, 'c, 's) sgrid" where
  "set_edge3_coordinates topology_var grid =
     (case var_attributes topology_var ''edge3_coordinates'' of
        None \<Rightarrow> grid
      | Some edge3_coordinates' \<Rightarrow>
          grid\<lparr>edge3_coordinates := Value (split_on CHR '' '' edge3_coordinates')\<rparr>)"

definition sgrid3d_set_all_edge_attributes ::
  "('a, 'p, 'c, 's) externals \<Rightarrow> string \<Rightarrow> 'a nc_variable \<Rightarrow>
   ('a, 'p, 'c, 's) sgrid \<Rightarrow> ('a, 'p, 'c, 's) sgrid" where
  "sgrid3d_set_all_edge_attributes X topology_variable topology_var grid =
     set_edge3_coordinates topology_var
       (set_edge3_dimensions X topology_variable topology_var
          (set_edge2_coordinates topology_var
             (set_edge2_dimensions X topology_variable topology_var
                (set_edge1_coordinates topology_var
                   (set_edge1_dimensions X topology_variable topology_var grid)))))"

definition set_face1_dimensions ::
  "('a, 'p, 'c, 's) externals \<Rightarrow> string \<Rightarrow> 'a nc_variable \<Rightarrow>
   ('a, 'p, 'c, 's) sgrid \<Rightarrow> ('a, 'p, 'c, 's) sgrid" where
  "set_face1_dimensions X topology_variable topology_var grid =
     (case var_attributes topology_var ''face1_dimensions'' of
        None \<Rightarrow> grid
      | Some face1_dim \<Rightarrow>
          grid\<lparr>face1_dimensions := Value face1_dim,
               face1_padding := Value (parse_padding X topology_variable face1_dim)\<rparr>)"

definition set_face1_coordinates ::
  "'a nc_variable \<Rightarrow> ('a, 'p, 'c, 's) sgrid \<Rightarrow> ('a, 'p, 'c, 's) sgrid" where
  "set_face1_coordinates topology_var grid =
     (case var_attributes topology_var ''face1_coordinates'' of
        None \<Rightarrow> grid
      | Some face1_coordinates' \<Rightarrow>
          grid\<lparr>face1_coordinates := Value (split_on CHR '' '' face1_coordinates')\<rparr>)"

definition set_face2_dimensions ::
  "('a, 'p, 'c, 's) externals \<Rightarrow> string \<Rightarrow> 'a nc_variable \<Rightarrow>
   ('a, 'p, 'c, 's) sgrid \<Rightarrow> ('a, 'p, 'c, 's) sgrid" where
  "set_face2_dimensions X topology_variable topology_var grid =
     (case var_attributes topology_var ''face2_dimensions'' of
        None \<Rightarrow> grid
      | Some face2_dim \<Rightarrow>
          grid\<lparr>face2_dimensions := Value face2_dim,
               face2_padding := Value (parse_padding X topology_variable face2_dim)\<rparr>)"

definition set_face2_coordinates ::
  "'a nc_variable \<Rightarrow> ('a, 'p, 'c, 's) sgrid \<Rightarrow> ('a, 'p, 'c, 's) sgrid" where
  "set_face2_coordinates topology_var grid =
     (case var_attributes topology_var ''face2_coordinates'' of
        None \<Rightarrow> grid
      | Some face2_coordinates' \<Rightarrow>
          grid\<lparr>face2_coordinates := Value (split_on CHR '' '' face2_coordinates')\<rparr>)"

definition set_face3_dimensions ::
  "('a, 'p, 'c, 's) externals \<Rightarrow> string \<Rightarrow> 'a nc_variable \<Rightarrow>
   ('a, 'p, 'c, 's) sgrid \<Rightarrow> ('a, 'p, 'c, 's) sgrid" where
  "set_face3_dimensions X topology_variable topology_var grid =
     (case var_attributes topology_var ''face3_dimensions'' of
        None \<Rightarrow> grid
      | Some face3_dim \<Rightarrow>
          grid\<lparr>face3_dimensions := Value face3_dim,
               face3_padding := Value (parse_padding X topology_variable face3_dim)\<rparr>)"

definition set_face3_coordinates ::
  "'a nc_variable \<Rightarrow> ('a, 'p, 'c, 's) sgrid \<Rightarrow> ('a, 'p, 'c, 's) sgrid" where
  "set_face3_coordinates topology_var grid =
     (case var_attributes topology_var ''face3_coordinates'' of
        None \<Rightarrow> grid
      | Some face3_coordinates' \<Rightarrow>
          grid\<lparr>face3_coordinates := Value (split_on CHR '' '' face3_coordinates')\<rparr>)"

definition sgrid3d_set_all_face_attributes ::
  "('a, 'p, 'c, 's) externals \<Rightarrow> string \<Rightarrow> 'a nc_variable \<Rightarrow>
   ('a, 'p, 'c, 's) sgrid \<Rightarrow> ('a, 'p, 'c, 's) sgrid" where
  "sgrid3d_set_all_face_attributes X topology_variable topology_var grid =
     set_face3_coordinates topology_var
       (set_face3_dimensions X topology_variable topology_var
          (set_face2_coordinates topology_var
             (set_face2_dimensions X topology_variable topology_var
                (set_face1_coordinates topology_var
                   (set_face1_dimensions X topology_variable topology_var grid)))))"

text \<open>
  \<^verbatim>\<open>self._sgrid.volume_coordinates[0]\<close> and \<^verbatim>\<open>[1]\<close>: \<^verbatim>\<open>None\<close> raises \<^verbatim>\<open>TypeError\<close>, a
  sequence too short \<^verbatim>\<open>IndexError\<close>. Here the longitude variable is looked up first.
\<close>

definition sgrid3d_set_cell_center_lat_lon ::
  "('a, 'p, 'c, 's) externals \<Rightarrow> 'a nc_dataset \<Rightarrow>
   ('a, 'p, 'c, 's) sgrid \<Rightarrow> error + ('a, 'p, 'c, 's) sgrid" where
  "sgrid3d_set_cell_center_lat_lon X ds grid =
     (case volume_coordinates grid of
        Absent \<Rightarrow> Inl (AttributeError ''volume_coordinates'')
      | Unset \<Rightarrow> Inl TypeError
      | Value (grid_cell_center_lon_var # grid_cell_center_lat_var # _) \<Rightarrow>
          (case get_variable ds (Some grid_cell_center_lon_var) of
             Inl e \<Rightarrow> Inl e
           | Inr grid_cell_center_lon \<Rightarrow>
               (case get_variable ds (Some grid_cell_center_lat_var) of
                  Inl e \<Rightarrow> Inl e
                | Inr grid_cell_center_lat \<Rightarrow>
                    Inr (grid\<lparr>centers := Value (pair_arrays X (var_data grid_cell_center_lon)
                                                  (var_data grid_cell_center_lat))\<rparr>)))
      | Value _ \<Rightarrow> Inl IndexError)"

definition sgrid3d_set_cell_node_lat_lon ::
  "('a, 'p, 'c, 's) sgrid \<Rightarrow> ('a, 'p, 'c, 's) sgrid" where
  "sgrid3d_set_cell_node_lat_lon grid = grid"

definition sgrid3d_delete_nd_attributes ::
  "('a, 'p, 'c, 's) sgrid \<Rightarrow> error + ('a, 'p, 'c, 's) sgrid" where
  "sgrid3d_delete_nd_attributes =
     run_steps
       [del_attr ''face_padding'' face_padding face_padding_update,
        del_attr ''face_coordinates'' face_coordinates face_coordinates_update,
        del_attr ''face_dimensions'' face_dimensions face_dimensions_update,
        del_attr ''vertical_padding'' vertical_padding vertical_padding_update,
        del_attr ''vertical_dimensions'' vertical_dimensions vertical_dimensions_update]"

section \<open>load_grid_from_nc_dataset\<close>

text \<open>
  The two branches of \<^verbatim>\<open>load_grid_from_nc_dataset\<close>, each the sequence of calls on the
  \<^verbatim>\<open>SGrid2D\<close> or \<^verbatim>\<open>SGrid3D\<close> object in the order of the source.
\<close>

definition load_sgrid2d ::
  "('a, 'p, 'c, 's) externals \<Rightarrow> 'a nc_dataset \<Rightarrow> string \<Rightarrow> 'a nc_variable \<Rightarrow>
   ('a, 'p, 'c, 's) sgrid \<Rightarrow> error + ('a, 'p, 'c, 's) sgrid" where
  "load_sgrid2d X ds topology_variable topology_var =
     run_steps
       [returns (set_dimensions ds),
        returns (set_topology_dimension 2),
        set_sgrid_topology topology_var,
        returns (set_sgrid_vertical_dimensions X topology_variable topology_var),
        set_sgrid_node_coordinates X ds topology_var,
        returns (set_all_edge_attributes X topology_variable topology_var),
        sgrid2d_set_all_face_attributes X ds topology_variable topology_var,
        sgrid2d_set_cell_center_lat_lon X ds,
        sgrid2d_set_cell_node_lat_lon X ds,
        returns (set_sgrid_angles ds),
        set_sgrid_time ds,
        returns (set_sgrid_variable_attributes X ds),
        sgrid2d_delete_nd_attributes]"

definition load_sgrid3d ::
  "('a, 'p, 'c, 's) externals \<Rightarrow> 'a nc_dataset \<Rightarrow> string \<Rightarrow> 'a nc_variable \<Rightarrow>
   ('a, 'p, 'c, 's) sgrid \<Rightarrow> error + ('a, 'p, 'c, 's) sgrid" where
  "load_sgrid3d X ds topology_variable topology_var =
     run_steps
       [returns (set_dimensions ds),
        returns (set_topology_dimension 3),
        set_sgrid_topology topology_var,
        set_sgrid_node_coordinates X ds topology_var,
        returns (sgrid3d_set_all_edge_attributes X topology_variable topology_var),
        returns (sgrid3d_set_all_face_attributes X topology_variable topology_var),
        returns (set_volume_dimensions X topology_variable topology_var),
        set_volume_coordinates ds topology_var,
        sgrid3d_set_cell_center_lat_lon X ds,
        returns sgrid3d_set_cell_node_lat_lon,
        returns (set_sgrid_angles ds),
        set_sgrid_time ds,
        returns (set_sgrid_variable_attributes X ds),
        sgrid3d_delete_nd_attributes]"

text \<open>
  The topology variable the loader works on (lines 588 to 593): the caller's
  \<^verbatim>\<open>grid_topology_vars\<close> when it is given, \<^verbatim>\<open>find_grid_topology_vars()\<close> otherwise.
\<close>

definition selected_topology_var ::
  "'a nc_dataset \<Rightarrow> string option \<Rightarrow> error + string option" where
  "selected_topology_var ds grid_topology_vars' =
     (case grid_topology_vars' of
        None \<Rightarrow> find_grid_topology_vars ds
      | Some given \<Rightarrow> Inr (Some given))"

text \<open>
  \<^verbatim>\<open>load_grid_from_nc_dataset(nc_dataset, grid, grid_topology_vars)\<close>; \<open>Inl\<close> is the
  exception raised, with nothing returned, \<open>Inr\<close> the grid returned. The parameter
  \<^verbatim>\<open>load_data\<close> is never read.
\<close>

definition load_grid_from_nc_dataset ::
  "('a, 'p, 'c, 's) externals \<Rightarrow> 'a nc_dataset \<Rightarrow> ('a, 'p, 'c, 's) sgrid \<Rightarrow> string option \<Rightarrow>
   error + ('a, 'p, 'c, 's) sgrid" where
  "load_grid_from_nc_dataset X ds grid grid_topology_vars' =
     (case sgrid_compliant_file ds of
        Inl e \<Rightarrow> Inl e
      | Inr False \<Rightarrow> Inl SGridNonCompliantError
      | Inr True \<Rightarrow>
          (case selected_topology_var ds grid_topology_vars' of
             Inl e \<Rightarrow> Inl e
           | Inr None \<Rightarrow> Inl (KeyError None)
           | Inr (Some topology_var') \<Rightarrow>
               (case get_variable ds (Some topology_var') of
                  Inl e \<Rightarrow> Inl e
                | Inr nc_grid_topology_var \<Rightarrow>
                    (case var_topology_dimension nc_grid_topology_var of
                       None \<Rightarrow> Inl (AttributeError ''topology_dimension'')
                     | Some topology_dim \<Rightarrow>
                         (let grid' = grid\<lparr>dimensions := Value (nc_dimensions ds),
                                           grid_topology_vars := Value topology_var'\<rparr>
                          in if topology_dim = 2
                             then load_sgrid2d X ds topology_var' nc_grid_topology_var grid'
                             else if topology_dim = 3
                             then load_sgrid3d X ds topology_var' nc_grid_topology_var grid'
                             else Inl (ValueError (UnsupportedTopologyDimension topology_dim)))))))"

section \<open>Reference definitions and sample inputs\<close>

text \<open>
  The spec's criterion for a topology variable, in its words: the \<^verbatim>\<open>cf_role\<close> attribute,
  trimmed, equals \<^verbatim>\<open>grid_topology\<close> and the \<^verbatim>\<open>topology_dimension\<close> attribute is at least 2.
\<close>

definition qualifies :: "'a nc_variable \<Rightarrow> bool" where
  "qualifies v =
     (case var_attributes v ''cf_role'' of
        None \<Rightarrow> False
      | Some cf_role \<Rightarrow>
          (case var_topology_dimension v of
             None \<Rightarrow> False
           | Some topology_dim \<Rightarrow> strip cf_role = ''grid_topology'' \<and> topology_dim \<ge> 2))"

definition first_qualifying :: "'a nc_dataset \<Rightarrow> string option" where
  "first_qualifying ds =
     (case filter (\<lambda>(nc_var, nc_var_obj). qualifies nc_var_obj) (nc_variables ds) of
        [] \<Rightarrow> None
      | (nc_var, nc_var_obj) # _ \<Rightarrow> Some nc_var)"

text \<open>The last element of a list, if it has one: the value a slot ends with.\<close>

definition last_option :: "'x list \<Rightarrow> 'x option" where
  "last_option xs = (if xs = [] then None else Some (last xs))"

definition has_lon :: "string \<Rightarrow> bool" where
  "has_lon name = contains (lower name) ''lon''"

definition has_lat :: "string \<Rightarrow> bool" where
  "has_lat name = contains (lower name) ''lat''"

text \<open>
  A slot over a run of classified names: the last name put in it, or what it held before
  when none was.
\<close>

definition slot_after :: "string option \<Rightarrow> string list \<Rightarrow> string option" where
  "slot_after held names = (case last_option names of None \<Rightarrow> held | Some name \<Rightarrow> Some name)"

text \<open>
  The spec's step 3 for one location variable, in its words: the candidates are the other
  variables whose dimension set is a non-empty subset of the location variable's
  dimensions; a name containing \<^verbatim>\<open>lon\<close> (in any case) goes to x, otherwise one containing
  \<^verbatim>\<open>lat\<close> goes to y, and any other to z.
\<close>

definition candidates :: "'a nc_dataset \<Rightarrow> string \<Rightarrow> 'a nc_variable \<Rightarrow> string list" where
  "candidates ds var_with_location location_var =
     map fst (filter (\<lambda>(nc_var, nc_var_obj).
                  nc_var \<noteq> var_with_location \<and>
                  set (var_dimensions nc_var_obj) \<noteq> {} \<and>
                  set (var_dimensions nc_var_obj) \<subseteq> set (var_dimensions location_var))
                (nc_variables ds))"

definition classified_by_name :: "slots \<Rightarrow> string list \<Rightarrow> slots" where
  "classified_by_name s names =
     (case s of (x, y, z) \<Rightarrow>
        (slot_after x (filter has_lon names),
         slot_after y (filter (\<lambda>name. \<not> has_lon name \<and> has_lat name) names),
         slot_after z (filter (\<lambda>name. \<not> has_lon name \<and> \<not> has_lat name) names)))"

text \<open>
  What a location variable without \<^verbatim>\<open>coordinates\<close> does to the slots, and a run of such
  variables one after the other.
\<close>

definition fallback :: "'a nc_dataset \<Rightarrow> slots \<Rightarrow> string \<Rightarrow> slots" where
  "fallback ds s var_with_location =
     (case get_variable ds (Some var_with_location) of
        Inl e \<Rightarrow> s
      | Inr location_var \<Rightarrow>
          classified_by_name s (candidates ds var_with_location location_var))"

text \<open>Every slot is empty or holds one of the names \<open>K\<close>.\<close>

definition slots_in :: "string set \<Rightarrow> slots \<Rightarrow> bool" where
  "slots_in K s = (case s of (x, y, z) \<Rightarrow>
      x \<in> insert None (Some ` K) \<and> y \<in> insert None (Some ` K) \<and> z \<in> insert None (Some ` K))"

text \<open>
  The tuple of the spec's step 4: none if a slot is unfilled, else the names.
\<close>

fun tuple_of_slots :: "string option list \<Rightarrow> string list option" where
  "tuple_of_slots [] = Some []"
| "tuple_of_slots (None # cs) = None"
| "tuple_of_slots (Some c # cs) =
     (case tuple_of_slots cs of None \<Rightarrow> None | Some ns \<Rightarrow> Some (c # ns))"





text \<open>An attribute of the grid a load returns, or the error the load raised.\<close>

definition attribute_of :: "('g \<Rightarrow> 'x) \<Rightarrow> error + 'g \<Rightarrow> error + 'x" where
  "attribute_of field result = (case result of Inl e \<Rightarrow> Inl e | Inr grid \<Rightarrow> Inr (field grid))"

text \<open>
  Sample inputs. Arrays are lists of integers; the padding parser is stood for by the
  identity on the attribute's text, the pairing of arrays by the pair, and the slicing by
  the list of the variable's dimensions.
\<close>

definition sample_externals :: "(int list, string, int list \<times> int list, string list) externals" where
  "sample_externals =
     \<lparr>parse_padding = (\<lambda>topology_variable text. text),
      pair_arrays = Pair,
      determine_variable_slicing =
        (\<lambda>grid ds nc_variable.
           case map_of (nc_variables ds) nc_variable of
             None \<Rightarrow> []
           | Some nc_var \<Rightarrow> var_dimensions nc_var),
      LON_GRID_CELL_NODE_LONG_NAME = [''longitude of grid cell nodes''],
      LAT_GRID_CELL_NODE_LONG_NAME = [''latitude of grid cell nodes'']\<rparr>"

definition sample_variable :: "string list \<Rightarrow> (string \<times> string) list \<Rightarrow> int list \<Rightarrow> int list nc_variable" where
  "sample_variable dims attrs data =
     \<lparr>var_dimensions = dims, var_topology_dimension = None,
      var_attributes = map_of attrs, var_data = data\<rparr>"

definition sample_topology_variable :: "int \<Rightarrow> (string \<times> string) list \<Rightarrow> int list nc_variable" where
  "sample_topology_variable topology_dim attrs =
     \<lparr>var_dimensions = [], var_topology_dimension = Some topology_dim,
      var_attributes = map_of attrs, var_data = []\<rparr>"

text \<open>
  Modelled from the spec: a Grid Model as it is constructed, before a load: every
  attribute is there and unset, and no descriptor is stored.
\<close>

definition fresh_sgrid :: "(int list, string, int list \<times> int list, string list) sgrid" where
  "fresh_sgrid =
     \<lparr>dimensions = Unset, grid_topology_vars = Unset, topology_dimension = Unset,
      node_dimensions = Unset, node_coordinates = Unset,
      edge1_dimension = Unset, edge1_padding = Unset, edge1_coordinates = Unset,
      edge2_dimension = Unset, edge2_padding = Unset, edge2_coordinates = Unset,
      edge3_dimension = Unset, edge3_dimensions = Unset, edge3_padding = Unset,
      edge3_coordinates = Unset,
      face_dimensions = Unset, face_padding = Unset, face_coordinates = Unset,
      vertical_dimensions = Unset, vertical_padding = Unset,
      face1_dimensions = Unset, face1_padding = Unset, face1_coordinates = Unset,
      face2_dimensions = Unset, face2_padding = Unset, face2_coordinates = Unset,
      face3_dimensions = Unset, face3_padding = Unset, face3_coordinates = Unset,
      volume_dimensions = Unset, volume_padding = Unset, volume_coordinates = Unset,
      centers = Unset, nodes = Unset, angles = Unset, grid_times = Unset,
      variables = Unset, grid_variables = Unset, properties = Map.empty\<rparr>"

text \<open>A dataset of station time series: \<^verbatim>\<open>cf_role\<close> is used, for something else.\<close>

definition timeseries_dataset :: "int list nc_dataset" where
  "timeseries_dataset =
     \<lparr>nc_dimensions = [(''station'', 2), (''time'', 3)],
      nc_variables =
        [(''station_name'', sample_variable [''station''] [(''cf_role'', ''timeseries_id'')] [1, 2]),
         (''time'', sample_variable [''time''] [] [0, 1, 2])]\<rparr>"

text \<open>A grid with its topology variable, and a station variable beside it.\<close>

definition grid_and_station_dataset :: "int list nc_dataset" where
  "grid_and_station_dataset =
     \<lparr>nc_dimensions = [(''station'', 2)],
      nc_variables =
        [(''grid'', sample_topology_variable 2 [(''cf_role'', ''grid_topology'')]),
         (''station_name'', sample_variable [''station''] [(''cf_role'', ''timeseries_id'')] [1, 2])]\<rparr>"


text \<open>
  A small two-dimensional grid: the topology variable names the node and face
  coordinates and nothing else.
\<close>

definition grid2d_dataset :: "int list nc_dataset" where
  "grid2d_dataset =
     \<lparr>nc_dimensions = [(''xi'', 2), (''time'', 1)],
      nc_variables =
        [(''grid'', sample_topology_variable 2
            [(''cf_role'', ''grid_topology''), (''node_dimensions'', ''xi_psi eta_psi''),
             (''node_coordinates'', ''lon_psi lat_psi''),
             (''face_coordinates'', ''lon_rho lat_rho'')]),
         (''lon_rho'', sample_variable [''xi''] [] [10, 11]),
         (''lat_rho'', sample_variable [''xi''] [] [50, 51]),
         (''lon_psi'', sample_variable [''xi''] [] [12, 13]),
         (''lat_psi'', sample_variable [''xi''] [] [52, 53]),
         (''time'', sample_variable [''time''] [] [0])]\<rparr>"

definition grid3d_dataset :: "int list nc_dataset" where
  "grid3d_dataset =
     \<lparr>nc_dimensions = [(''xi'', 2), (''time'', 1)],
      nc_variables =
        [(''grid'', sample_topology_variable 3
            [(''cf_role'', ''grid_topology''), (''node_dimensions'', ''xi_psi eta_psi s_w''),
             (''volume_dimensions'', ''xi_rho: xi_psi (padding: both)''),
             (''volume_coordinates'', ''lon_rho lat_rho s_rho'')]),
         (''lon_rho'', sample_variable [''xi''] [] [10, 11]),
         (''lat_rho'', sample_variable [''xi''] [] [50, 51]),
         (''Times'', sample_variable [''time''] [] [7])]\<rparr>"

text \<open>
  A variable on the faces with no \<^verbatim>\<open>coordinates\<close> attribute, among variables that share
  its dimensions and variables that do not.
\<close>

definition face_dataset :: "int list nc_dataset" where
  "face_dataset =
     \<lparr>nc_dimensions = [(''eta'', 1), (''xi'', 2), (''time'', 1)],
      nc_variables =
        [(''h'', sample_variable [''eta'', ''xi''] [(''location'', ''face'')] [5, 6]),
         (''LON_rho'', sample_variable [''eta'', ''xi''] [] [10, 11]),
         (''lat_rho'', sample_variable [''xi''] [] [50, 51]),
         (''s_rho'', sample_variable [''eta''] [] [1]),
         (''time'', sample_variable [''time''] [] [0]),
         (''scalar'', sample_variable [] [] [3])]\<rparr>"

text \<open>
  Two variables on the faces: the first has no \<^verbatim>\<open>coordinates\<close> attribute, the second
  has one that names a latitude only.
\<close>

definition two_face_dataset :: "int list nc_dataset" where
  "two_face_dataset =
     \<lparr>nc_dimensions = [(''d'', 2), (''e'', 2)],
      nc_variables =
        [(''h'', sample_variable [''d''] [(''location'', ''face'')] [5, 6]),
         (''lon_a'', sample_variable [''d''] [] [10, 11]),
         (''lat_a'', sample_variable [''d''] [] [50, 51]),
         (''zeta'', sample_variable [''e'']
            [(''location'', ''face''), (''coordinates'', ''lat_b'')] [0, 0]),
         (''lat_b'', sample_variable [''e''] [] [60, 61]),
         (''mask'', sample_variable [''e''] [(''location'', ''face'')] [1, 1])]\<rparr>"

section \<open>The topology variable and the first errors of a load\<close>

lemma grid_topology_vars_loop_acc:
  "grid_topology_vars_loop vs acc =
     (case grid_topology_vars_loop vs [] of Inl e \<Rightarrow> Inl e | Inr found \<Rightarrow> Inr (acc @ found))"
proof (induction vs arbitrary: acc)
  case Nil
  show ?case by simp
next
  case (Cons v vs)
  obtain nc_var nc_var_obj where v: "v = (nc_var, nc_var_obj)" by (cases v)
  show ?case
    using Cons.IH [of "acc @ [nc_var]"] Cons.IH [of "[nc_var]"] Cons.IH [of acc]
    by (simp add: v split: option.splits sum.splits)
qed

lemma grid_topology_vars_loop_raises:
  assumes "(nc_var, nc_var_obj) \<in> set vs"
    and "var_attributes nc_var_obj ''cf_role'' = Some cf_role"
    and "var_topology_dimension nc_var_obj = None"
  shows "grid_topology_vars_loop vs acc = Inl (AttributeError ''topology_dimension'')"
  using assms
proof (induction vs arbitrary: acc)
  case Nil
  then show ?case by simp
next
  case (Cons v vs)
  obtain k obj where v: "v = (k, obj)" by (cases v)
  show ?case
  proof (cases "v = (nc_var, nc_var_obj)")
    case True
    then show ?thesis using Cons.prems by simp
  next
    case False
    then have "(nc_var, nc_var_obj) \<in> set vs" using Cons.prems by simp
    then have "\<And>acc. grid_topology_vars_loop vs acc = Inl (AttributeError ''topology_dimension'')"
      using Cons.IH Cons.prems by blast
    then show ?thesis by (simp add: v split: option.splits)
  qed
qed

text \<open>
  Where every variable that has \<^verbatim>\<open>cf_role\<close> has \<^verbatim>\<open>topology_dimension\<close> too, the scan
  raises nothing and returns the first variable, in the dataset's order, that meets the
  spec's criterion, or \<^verbatim>\<open>None\<close>.
\<close>

lemma grid_topology_vars_loop_filter:
  assumes "\<And>nc_var nc_var_obj. (nc_var, nc_var_obj) \<in> set vs \<Longrightarrow>
             var_attributes nc_var_obj ''cf_role'' \<noteq> None \<Longrightarrow>
             var_topology_dimension nc_var_obj \<noteq> None"
  shows "grid_topology_vars_loop vs [] =
           Inr (map fst (filter (\<lambda>(nc_var, nc_var_obj). qualifies nc_var_obj) vs))"
  using assms
proof (induction vs)
  case Nil
  show ?case by simp
next
  case (Cons v vs)
  obtain k obj where v: "v = (k, obj)" by (cases v)
  have IH: "grid_topology_vars_loop vs [] =
           Inr (map fst (filter (\<lambda>(nc_var, nc_var_obj). qualifies nc_var_obj) vs))"
    by (rule Cons.IH, rule Cons.prems) auto
  have ok: "var_attributes obj ''cf_role'' \<noteq> None \<Longrightarrow> var_topology_dimension obj \<noteq> None"
    using Cons.prems [of k obj] v by simp
  show ?case
  proof (cases "var_attributes obj ''cf_role''")
    case None
    then show ?thesis by (simp add: v qualifies_def IH)
  next
    case (Some cf_role)
    then obtain topology_dim where d: "var_topology_dimension obj = Some topology_dim"
      using ok by auto
    show ?thesis
      using grid_topology_vars_loop_acc [of vs "[k]"]
      by (simp add: v qualifies_def IH Some d)
  qed
qed

lemma find_grid_topology_vars_first_qualifying:
  assumes "\<And>nc_var nc_var_obj. (nc_var, nc_var_obj) \<in> set (nc_variables ds) \<Longrightarrow>
             var_attributes nc_var_obj ''cf_role'' \<noteq> None \<Longrightarrow>
             var_topology_dimension nc_var_obj \<noteq> None"
  shows "find_grid_topology_vars ds = Inr (first_qualifying ds)"
  using grid_topology_vars_loop_filter [OF assms]
  by (simp add: find_grid_topology_vars_def first_qualifying_def split: list.splits prod.splits)

lemma find_grid_topology_vars_cases:
  "find_grid_topology_vars ds = Inl (AttributeError ''topology_dimension'') \<or>
   find_grid_topology_vars ds = Inr (first_qualifying ds)"
proof (cases "\<exists>nc_var nc_var_obj. (nc_var, nc_var_obj) \<in> set (nc_variables ds) \<and>
             var_attributes nc_var_obj ''cf_role'' \<noteq> None \<and> var_topology_dimension nc_var_obj = None")
  case True
  then show ?thesis
    using grid_topology_vars_loop_raises by (fastforce simp: find_grid_topology_vars_def)
next
  case False
  have "find_grid_topology_vars ds = Inr (first_qualifying ds)"
  proof (intro find_grid_topology_vars_first_qualifying)
    fix nc_var nc_var_obj
    assume a: "(nc_var, nc_var_obj) \<in> set (nc_variables ds)"
      and b: "var_attributes nc_var_obj ''cf_role'' \<noteq> None"
    show "var_topology_dimension nc_var_obj \<noteq> None"
    proof
      assume "var_topology_dimension nc_var_obj = None"
      with a b False show False by iprover
    qed
  qed
  then show ?thesis by simp
qed

text \<open>
  A dataset in which the scan finds nothing is refused with \<^verbatim>\<open>SGridNonCompliantError\<close>,
  whatever topology variable the caller names.
\<close>

lemma load_non_compliant:
  "find_grid_topology_vars ds = Inr None \<Longrightarrow>
   load_grid_from_nc_dataset X ds grid grid_topology_vars' = Inl SGridNonCompliantError"
  by (simp add: load_grid_from_nc_dataset_def sgrid_compliant_file_def)

text \<open>
  Claim C1. The claim: a dataset in which no variable has a trimmed \<^verbatim>\<open>cf_role\<close> equal to
  \<^verbatim>\<open>grid_topology\<close> together with a \<^verbatim>\<open>topology_dimension\<close> of at least 2 is refused by
  \<^verbatim>\<open>load_grid_from_nc_dataset\<close> with the non-compliant-source error. The code at the
  dataset of station time series, in which no variable meets the criterion: the load
  raises \<^verbatim>\<open>AttributeError\<close>, not \<^verbatim>\<open>SGridNonCompliantError\<close>, because the scan reads
  \<^verbatim>\<open>topology_dimension\<close> of the variable that has a \<^verbatim>\<open>cf_role\<close> outside the \<^verbatim>\<open>try\<close>.
\<close>

theorem load_timeseries_dataset_raises_attribute_error:
  "load_grid_from_nc_dataset sample_externals timeseries_dataset fresh_sgrid None =
     Inl (AttributeError ''topology_dimension'') \<and>
   first_qualifying timeseries_dataset = None"
  by (simp add: load_grid_from_nc_dataset_def sgrid_compliant_file_def
      find_grid_topology_vars_def timeseries_dataset_def sample_variable_def
      first_qualifying_def qualifies_def)




text \<open>
  Claim C3. The claim: \<^verbatim>\<open>find_grid_topology_vars\<close> returns the first variable, in the
  dataset's order, whose trimmed \<^verbatim>\<open>cf_role\<close> is \<^verbatim>\<open>grid_topology\<close> and whose
  \<^verbatim>\<open>topology_dimension\<close> is at least 2, and \<^verbatim>\<open>None\<close> if there is none. The code at the
  dataset of a grid and a station variable: the first variable meets the criterion, and
  the scan raises \<^verbatim>\<open>AttributeError\<close> at the station variable instead of returning it.
\<close>

theorem find_grid_topology_vars_grid_and_station_raises:
  "find_grid_topology_vars grid_and_station_dataset =
     Inl (AttributeError ''topology_dimension'') \<and>
   first_qualifying grid_and_station_dataset = Some ''grid''"
  by (simp add: find_grid_topology_vars_def grid_and_station_dataset_def sample_variable_def
      sample_topology_variable_def first_qualifying_def qualifies_def strip_def is_space_def)



section \<open>Coordinate inference\<close>

text \<open>\<open>contains\<close> is the substring test.\<close>

lemma contains_iff: "contains s sub \<longleftrightarrow> (\<exists>p q. s = p @ sub @ q)"
proof (induction s)
  case Nil then show ?case by auto
next
  case (Cons c cs)
  show ?case
  proof
    assume "contains (c # cs) sub"
    then consider "take (length sub) (c # cs) = sub" | "contains cs sub" by auto
    then show "\<exists>p q. c # cs = p @ sub @ q"
    proof cases
      case 1
      then have "c # cs = [] @ sub @ drop (length sub) (c # cs)"
        by (metis append_Nil append_take_drop_id)
      then show ?thesis by blast
    next
      case 2
      then obtain p q where "cs = p @ sub @ q" using Cons.IH by auto
      then have "c # cs = (c # p) @ sub @ q" by simp
      then show ?thesis by blast
    qed
  next
    assume "\<exists>p q. c # cs = p @ sub @ q"
    then obtain p q where pq: "c # cs = p @ sub @ q" by auto
    show "contains (c # cs) sub"
    proof (cases p)
      case Nil
      then have "take (length sub) (c # cs) = sub" using pq by simp
      then show ?thesis by simp
    next
      case (Cons a p')
      then have "cs = p' @ sub @ q" using pq by simp
      then show ?thesis using Cons.IH by auto
    qed
  qed
qed

text \<open>
  The two inner loops of the \<^verbatim>\<open>except\<close> branch, against the spec's step 3: the potential
  coordinates are the candidates, and the classification leaves in each slot the last
  candidate of its class.
\<close>

lemma potential_coordinates_candidates:
  "potential_coordinates ds v (var_dimensions lv) = candidates ds v lv"
proof -
  have "\<And>d :: string list. (card (set d) > 0) = (set d \<noteq> {})"
    by (simp add: card_gt_0_iff)
  then show ?thesis
    by (auto simp add: potential_coordinates_def candidates_def intro!: arg_cong [where f = "map fst"] filter_cong)
qed

lemma foldl_classify_by_name:
  "foldl classify_by_name s names = classified_by_name s names"
proof (induction names arbitrary: s)
  case Nil
  show ?case by (cases s) (simp add: classified_by_name_def slot_after_def last_option_def)
next
  case (Cons n names)
  obtain x y z where s: "s = (x, y, z)" by (cases s)
  show ?case
    by (simp add: s Cons.IH has_lon_def has_lat_def classified_by_name_def slot_after_def last_option_def)
qed

text \<open>One pass of the loop over the location variables, by the branch it takes.\<close>

lemma location_loop_without_coordinates:
  assumes "get_variable ds (Some v) = Inr lv" and "var_attributes lv ''coordinates'' = None"
  shows "location_loop ds s (v # rest) = location_loop ds (fallback ds s v) rest"
  using assms
  by (simp add: fallback_def foldl_classify_by_name potential_coordinates_candidates)

lemma location_loop_with_coordinates:
  assumes "get_variable ds (Some v) = Inr lv" and "var_attributes lv ''coordinates'' = Some c"
  shows "location_loop ds s (v # rest) = classify_by_attribute ds s c"
  using assms by simp

lemma location_loop_fallbacks:
  assumes "\<forall>v \<in> set earlier. \<exists>lv. get_variable ds (Some v) = Inr lv \<and> var_attributes lv ''coordinates'' = None"
  shows "location_loop ds s (earlier @ rest) = location_loop ds (foldl (fallback ds) s earlier) rest"
  using assms
proof (induction earlier arbitrary: s)
  case Nil
  show ?case by simp
next
  case (Cons v earlier)
  then obtain lv where lv: "get_variable ds (Some v) = Inr lv" "var_attributes lv ''coordinates'' = None"
    by auto
  have "location_loop ds s ((v # earlier) @ rest) = location_loop ds (fallback ds s v) (earlier @ rest)"
    using location_loop_without_coordinates [OF lv] by simp
  also have "\<dots> = location_loop ds (foldl (fallback ds) (fallback ds s v) earlier) rest"
    using Cons by simp
  finally show ?case by simp
qed


text \<open>
  Every name the method puts in a slot is the name of a variable of the dataset.
\<close>

lemma slot_after_in:
  assumes "held \<in> insert None (Some ` K)" and "set names \<subseteq> K"
  shows "slot_after held names \<in> insert None (Some ` K)"
proof (cases "names = []")
  case True
  then show ?thesis using assms(1) by (simp add: slot_after_def last_option_def)
next
  case False
  then have "last names \<in> K" using assms(2) last_in_set [of names] by blast
  then show ?thesis using False by (simp add: slot_after_def last_option_def)
qed

lemma candidates_keys: "set (candidates ds v lv) \<subseteq> fst ` set (nc_variables ds)"
  by (auto simp: candidates_def)

lemma get_variable_key: "get_variable ds (Some k) = Inr v \<Longrightarrow> k \<in> fst ` set (nc_variables ds)"
  by (auto simp: get_variable_def split: option.splits dest!: map_of_SomeD intro: rev_image_eqI)

lemma fallback_slots_in:
  assumes "slots_in (fst ` set (nc_variables ds)) s"
  shows "slots_in (fst ` set (nc_variables ds)) (fallback ds s v)"
proof (cases "get_variable ds (Some v)")
  case (Inl e)
  then show ?thesis using assms by (simp add: fallback_def)
next
  case (Inr lv)
  obtain x y z where s: "s = (x, y, z)" by (cases s)
  have sub: "\<And>P. set (filter P (candidates ds v lv)) \<subseteq> fst ` set (nc_variables ds)"
    using candidates_keys [of ds v lv] by auto
  show ?thesis
    using assms slot_after_in [OF _ sub]
    by (simp add: fallback_def Inr s classified_by_name_def slots_in_def)
qed

lemma foldl_fallback_slots_in:
  "slots_in (fst ` set (nc_variables ds)) s \<Longrightarrow>
   slots_in (fst ` set (nc_variables ds)) (foldl (fallback ds) s vs)"
  by (induction vs arbitrary: s) (simp_all add: fallback_slots_in)

lemma classify_coordinate_slots_in:
  assumes "classify_coordinate ds s lvc = Inr s'" and "slots_in (fst ` set (nc_variables ds)) s"
  shows "slots_in (fst ` set (nc_variables ds)) s' \<and> lvc \<in> fst ` set (nc_variables ds)"
proof -
  obtain x y z where s: "s = (x, y, z)" by (cases s)
  from assms(1) obtain v where v: "get_variable ds (Some lvc) = Inr v"
    by (cases "get_variable ds (Some lvc)") (simp_all add: s)
  have k: "lvc \<in> fst ` set (nc_variables ds)" using get_variable_key [OF v] .
  show ?thesis
    using assms k by (auto simp: s v slots_in_def split: option.splits if_splits)
qed

lemma classify_coordinates_slots_in:
  assumes "classify_coordinates ds s lvcs = Inr s'" and "slots_in (fst ` set (nc_variables ds)) s"
  shows "slots_in (fst ` set (nc_variables ds)) s' \<and> set lvcs \<subseteq> fst ` set (nc_variables ds)"
  using assms
proof (induction lvcs arbitrary: s)
  case Nil
  then show ?case by simp
next
  case (Cons lvc lvcs)
  then obtain s1 where s1: "classify_coordinate ds s lvc = Inr s1"
    and rest: "classify_coordinates ds s1 lvcs = Inr s'"
    by (auto split: sum.splits)
  from classify_coordinate_slots_in [OF s1 Cons.prems(2)] Cons.IH [OF rest]
  show ?case by simp
qed

lemma classify_by_attribute_slots_in:
  assumes "classify_by_attribute ds s c = Inr s'" and "slots_in (fst ` set (nc_variables ds)) s"
  shows "slots_in (fst ` set (nc_variables ds)) s'"
proof -
  let ?l = "split_on CHR '' '' (strip c)"
  from assms(1) obtain x y z where r: "classify_coordinates ds s ?l = Inr (x, y, z)"
    by (auto simp: classify_by_attribute_def Let_def split: sum.splits)
  from classify_coordinates_slots_in [OF r assms(2)]
  have in1: "slots_in (fst ` set (nc_variables ds)) (x, y, z)"
    and keys: "set ?l \<subseteq> fst ` set (nc_variables ds)" by simp_all
  show ?thesis
  proof (cases "length ?l = 3")
    case True
    then have "?l \<noteq> []" by auto
    then have "last ?l \<in> set ?l" by simp
    then have "last ?l \<in> fst ` set (nc_variables ds)" using keys by blast
    moreover have "s' = (x, y, Some (last ?l))"
      using assms(1) True by (simp add: classify_by_attribute_def Let_def r)
    ultimately show ?thesis using in1 by (simp add: slots_in_def)
  next
    case False
    then have "s' = (x, y, z)"
      using assms(1) by (simp add: classify_by_attribute_def Let_def r)
    then show ?thesis using in1 by simp
  qed
qed

lemma location_loop_slots_in:
  assumes "location_loop ds s vs = Inr s'" and "slots_in (fst ` set (nc_variables ds)) s"
  shows "slots_in (fst ` set (nc_variables ds)) s'"
  using assms
proof (induction vs arbitrary: s)
  case Nil
  then show ?case by simp
next
  case (Cons v vs)
  from Cons.prems(1) obtain lv where lv: "get_variable ds (Some v) = Inr lv"
    by (cases "get_variable ds (Some v)") simp_all
  show ?case
  proof (cases "var_attributes lv ''coordinates''")
    case None
    have "location_loop ds (fallback ds s v) vs = Inr s'"
      using Cons.prems(1) location_loop_without_coordinates [OF lv None] by simp
    then show ?thesis using Cons.IH fallback_slots_in [OF Cons.prems(2)] by blast
  next
    case (Some c)
    have "classify_by_attribute ds s c = Inr s'"
      using Cons.prems(1) location_loop_with_coordinates [OF lv Some] by simp
    then show ?thesis using classify_by_attribute_slots_in Cons.prems(2) by blast
  qed
qed

lemma all_names_tuple_of_slots:
  assumes "[] \<notin> K" and "\<forall>c \<in> set cs. c \<in> insert None (Some ` K)"
  shows "all_names cs = tuple_of_slots cs"
  using assms(2)
proof (induction cs)
  case Nil
  show ?case by simp
next
  case (Cons c cs)
  show ?case
  proof (cases c)
    case None
    then show ?thesis by simp
  next
    case (Some n)
    then have "n \<noteq> []" using Cons.prems assms(1) by auto
    then show ?thesis using Cons Some by simp
  qed
qed

lemma tuple_of_slots_length: "tuple_of_slots cs = Some names \<Longrightarrow> length names = length cs"
proof (induction cs arbitrary: names)
  case Nil
  then show ?case by simp
next
  case (Cons c cs)
  then show ?case by (cases c) (auto split: option.splits)
qed

text \<open>
  Claim C6. In a dataset whose variables have non-empty names (netCDF has no others),
  for every location and topology dimension: \<^verbatim>\<open>find_coordinates_by_location\<close> returns
  \<^verbatim>\<open>None\<close> when no variable has the location; when the classification ends with the
  slots \<open>x\<close>, \<open>y\<close>, \<open>z\<close>, it returns \<^verbatim>\<open>None\<close> if a required slot (\<open>x\<close>, \<open>y\<close>, and \<open>z\<close>
  unless the topology dimension is 2) is unfilled and the tuple of the required slots
  otherwise; and a tuple it returns has 2 names if the topology dimension is 2 and 3
  names otherwise.
\<close>

theorem find_coordinates_by_location_result:
  assumes "[] \<notin> fst ` set (nc_variables ds)"
  shows "(search_variables_by_location ds location_str = [] \<longrightarrow>
            find_coordinates_by_location ds location_str topology_dim = Inr None) \<and>
         (\<forall>x y z. location_loop ds (None, None, None)
                     (search_variables_by_location ds location_str) = Inr (x, y, z) \<longrightarrow>
            find_coordinates_by_location ds location_str topology_dim =
              Inr (tuple_of_slots (if topology_dim = 2 then [x, y] else [x, y, z]))) \<and>
         (\<forall>names. find_coordinates_by_location ds location_str topology_dim = Inr (Some names) \<longrightarrow>
            length names = (if topology_dim = 2 then 2 else 3))"
proof -
  let ?K = "fst ` set (nc_variables ds)"
  have start: "slots_in ?K (None, None, None)" by (simp add: slots_in_def)
  have main: "find_coordinates_by_location ds location_str topology_dim =
              Inr (tuple_of_slots (if topology_dim = 2 then [x, y] else [x, y, z]))"
    if r: "location_loop ds (None, None, None)
             (search_variables_by_location ds location_str) = Inr (x, y, z)" for x y z
  proof -
    have "slots_in ?K (x, y, z)" using location_loop_slots_in [OF r start] .
    then have "\<forall>c \<in> set (if topology_dim = 2 then [x, y] else [x, y, z]). c \<in> insert None (Some ` ?K)"
      by (simp add: slots_in_def)
    from all_names_tuple_of_slots [OF assms this]
    show ?thesis by (simp add: find_coordinates_by_location_def r)
  qed
  have empty: "find_coordinates_by_location ds location_str topology_dim = Inr None"
    if "search_variables_by_location ds location_str = []"
    using that by (simp add: find_coordinates_by_location_def)
  have len: "length names = (if topology_dim = 2 then 2 else 3)"
    if f: "find_coordinates_by_location ds location_str topology_dim = Inr (Some names)" for names
  proof -
    from f obtain x y z where r: "location_loop ds (None, None, None)
             (search_variables_by_location ds location_str) = Inr (x, y, z)"
      by (auto simp: find_coordinates_by_location_def split: sum.splits)
    from main [OF r] f have "tuple_of_slots (if topology_dim = 2 then [x, y] else [x, y, z]) = Some names"
      by simp
    from tuple_of_slots_length [OF this] show ?thesis by (simp split: if_splits)
  qed
  from main empty len show ?thesis by blast
qed

text \<open>
  Claim C7. When the one variable with the location has no \<^verbatim>\<open>coordinates\<close> attribute,
  the variables considered are exactly the other variables whose dimension set is a
  non-empty subset of its dimensions (\<open>candidates\<close>), each classified by its name in lower
  case: the x slot ends with the last candidate containing \<^verbatim>\<open>lon\<close>, the y slot with the
  last of the others containing \<^verbatim>\<open>lat\<close>, the z slot with the last of the rest; and the
  method returns these slots.
\<close>

theorem fallback_classification_by_name:
  assumes "search_variables_by_location ds location_str = [var_with_location]"
    and "get_variable ds (Some var_with_location) = Inr location_var"
    and "var_attributes location_var ''coordinates'' = None"
  shows "location_loop ds (None, None, None) (search_variables_by_location ds location_str) =
           Inr (last_option (filter has_lon (candidates ds var_with_location location_var)),
                last_option (filter (\<lambda>name. \<not> has_lon name \<and> has_lat name)
                               (candidates ds var_with_location location_var)),
                last_option (filter (\<lambda>name. \<not> has_lon name \<and> \<not> has_lat name)
                               (candidates ds var_with_location location_var))) \<and>
         find_coordinates_by_location ds location_str topology_dim =
           Inr (all_names
                  (if topology_dim = 2
                   then [last_option (filter has_lon (candidates ds var_with_location location_var)),
                         last_option (filter (\<lambda>name. \<not> has_lon name \<and> has_lat name)
                                        (candidates ds var_with_location location_var))]
                   else [last_option (filter has_lon (candidates ds var_with_location location_var)),
                         last_option (filter (\<lambda>name. \<not> has_lon name \<and> has_lat name)
                                        (candidates ds var_with_location location_var)),
                         last_option (filter (\<lambda>name. \<not> has_lon name \<and> \<not> has_lat name)
                                        (candidates ds var_with_location location_var))]))"
proof -
  have "location_loop ds (None, None, None) [var_with_location] =
          Inr (fallback ds (None, None, None) var_with_location)"
    using location_loop_without_coordinates [OF assms(2,3)] by simp
  then have loop: "location_loop ds (None, None, None) (search_variables_by_location ds location_str) =
           Inr (last_option (filter has_lon (candidates ds var_with_location location_var)),
                last_option (filter (\<lambda>name. \<not> has_lon name \<and> has_lat name)
                               (candidates ds var_with_location location_var)),
                last_option (filter (\<lambda>name. \<not> has_lon name \<and> \<not> has_lat name)
                               (candidates ds var_with_location location_var)))"
    by (simp add: assms fallback_def classified_by_name_def slot_after_def split: option.splits)
  show ?thesis
    by (simp add: loop find_coordinates_by_location_def)
qed

lemma face_search: "search_variables_by_location face_dataset ''face'' = [''h'']"
  by (simp add: search_variables_by_location_def face_dataset_def sample_variable_def)

lemma face_h: "get_variable face_dataset (Some ''h'') =
   Inr (sample_variable [''eta'', ''xi''] [(''location'', ''face'')] [5, 6])"
  by (simp add: get_variable_def face_dataset_def)

lemma face_candidates:
  "candidates face_dataset ''h'' (sample_variable [''eta'', ''xi''] [(''location'', ''face'')] [5, 6])
     = [''LON_rho'', ''lat_rho'', ''s_rho'']"
  by (simp add: candidates_def face_dataset_def sample_variable_def)

lemma has_samples:
  "has_lon ''LON_rho''" "\<not> has_lon ''lat_rho''" "has_lat ''lat_rho''" "\<not> has_lon ''s_rho''"
  "\<not> has_lat ''s_rho''"
  by (simp_all add: has_lon_def has_lat_def lower_def lower_char_def)

theorem fallback_classification_by_name_witness:
  "search_variables_by_location face_dataset ''face'' = [''h''] \<and>
   get_variable face_dataset (Some ''h'') =
     Inr (sample_variable [''eta'', ''xi''] [(''location'', ''face'')] [5, 6]) \<and>
   var_attributes (sample_variable [''eta'', ''xi''] [(''location'', ''face'')] [5, 6]) ''coordinates'' = None \<and>
   candidates face_dataset ''h'' (sample_variable [''eta'', ''xi''] [(''location'', ''face'')] [5, 6])
     = [''LON_rho'', ''lat_rho'', ''s_rho''] \<and>
   location_loop face_dataset (None, None, None) (search_variables_by_location face_dataset ''face'') =
     Inr (Some ''LON_rho'', Some ''lat_rho'', Some ''s_rho'') \<and>
   find_coordinates_by_location face_dataset ''face'' 3 = Inr (Some [''LON_rho'', ''lat_rho'', ''s_rho''])"
proof -
  have none: "var_attributes (sample_variable [''eta'', ''xi''] [(''location'', ''face'')] [5, 6]) ''coordinates'' = None"
    by (simp add: sample_variable_def)
  show ?thesis
    using fallback_classification_by_name [OF face_search face_h none, of 3]
    by (simp add: face_search face_h none face_candidates has_samples last_option_def)
qed

lemma face_loop:
  "location_loop face_dataset (None, None, None) (search_variables_by_location face_dataset ''face'') =
     Inr (Some ''LON_rho'', Some ''lat_rho'', Some ''s_rho'')"
proof -
  have none: "var_attributes (sample_variable [''eta'', ''xi''] [(''location'', ''face'')] [5, 6]) ''coordinates'' = None"
    by (simp add: sample_variable_def)
  show ?thesis
    using location_loop_without_coordinates [OF face_h none, of "(None, None, None)" "[]"]
    by (simp add: face_search fallback_def face_h face_candidates classified_by_name_def
        slot_after_def last_option_def has_samples)
qed

theorem find_coordinates_by_location_result_witness:
  "[] \<notin> fst ` set (nc_variables face_dataset) \<and>
   search_variables_by_location face_dataset ''volume'' = [] \<and>
   find_coordinates_by_location face_dataset ''volume'' 3 = Inr None \<and>
   location_loop face_dataset (None, None, None) (search_variables_by_location face_dataset ''face'') =
     Inr (Some ''LON_rho'', Some ''lat_rho'', Some ''s_rho'') \<and>
   find_coordinates_by_location face_dataset ''face'' 2 = Inr (Some [''LON_rho'', ''lat_rho'']) \<and>
   find_coordinates_by_location face_dataset ''face'' 3 =
     Inr (Some [''LON_rho'', ''lat_rho'', ''s_rho''])"
proof -
  have names: "[] \<notin> fst ` set (nc_variables face_dataset)"
    by (simp add: face_dataset_def)
  have no_variable: "search_variables_by_location face_dataset ''volume'' = []"
    by (simp add: search_variables_by_location_def face_dataset_def sample_variable_def)
  show ?thesis
    using names no_variable face_loop find_coordinates_by_location_result [OF names, of "''volume''" 3]
      find_coordinates_by_location_result [OF names, of "''face''" 2] find_coordinates_by_location_result [OF names, of "''face''" 3]
    by simp
qed

text \<open>
  Claim C10, amended. Among the variables with the location, let one have a
  \<^verbatim>\<open>coordinates\<close> attribute and all before it have none. The loop stops at that variable:
  the variables after it have no part in the result. Each variable before it is
  classified by the fallback in turn, each on the slots the one before left, so a later
  one overwrites the slots it fills; the variable with \<^verbatim>\<open>coordinates\<close> is classified
  last, on the slots the earlier ones left, and the slots it does not assign keep what
  they held.
\<close>

theorem location_loop_stops_at_coordinates:
  assumes "search_variables_by_location ds location_str = earlier @ var_with_location # later"
    and "\<forall>v \<in> set earlier. \<exists>lv. get_variable ds (Some v) = Inr lv \<and>
            var_attributes lv ''coordinates'' = None"
    and "get_variable ds (Some var_with_location) = Inr location_var"
    and "var_attributes location_var ''coordinates'' = Some location_var_coordinates"
  shows "location_loop ds (None, None, None) (search_variables_by_location ds location_str) =
           classify_by_attribute ds (foldl (fallback ds) (None, None, None) earlier)
             location_var_coordinates \<and>
         find_coordinates_by_location ds location_str topology_dim =
           (case classify_by_attribute ds (foldl (fallback ds) (None, None, None) earlier)
                   location_var_coordinates of
              Inl e \<Rightarrow> Inl e
            | Inr (x, y, z) \<Rightarrow>
                Inr (all_names (if topology_dim = 2 then [x, y] else [x, y, z])))"
proof -
  have loop: "location_loop ds (None, None, None) (search_variables_by_location ds location_str) =
           classify_by_attribute ds (foldl (fallback ds) (None, None, None) earlier)
             location_var_coordinates"
    using location_loop_fallbacks [OF assms(2), of "(None, None, None)" "var_with_location # later"]
      location_loop_with_coordinates [OF assms(3,4)]
    by (simp add: assms(1))
  show ?thesis
    by (simp add: loop find_coordinates_by_location_def)
qed

lemma two_face_search:
  "search_variables_by_location two_face_dataset ''face'' = [''h''] @ ''zeta'' # [''mask'']"
  by (simp add: search_variables_by_location_def two_face_dataset_def sample_variable_def)

lemma two_face_h:
  "\<forall>v \<in> set [''h'']. \<exists>lv. get_variable two_face_dataset (Some v) = Inr lv \<and>
            var_attributes lv ''coordinates'' = None"
  by (simp add: get_variable_def two_face_dataset_def sample_variable_def)

lemma two_face_zeta:
  "get_variable two_face_dataset (Some ''zeta'') =
     Inr (sample_variable [''e''] [(''location'', ''face''), (''coordinates'', ''lat_b'')] [0, 0])"
  by (simp add: get_variable_def two_face_dataset_def)

lemma two_face_fallback:
  "fallback two_face_dataset (None, None, None) ''h'' = (Some ''lon_a'', Some ''lat_a'', None)"
  by (simp add: fallback_def get_variable_def two_face_dataset_def sample_variable_def
      candidates_def classified_by_name_def slot_after_def last_option_def has_lon_def has_lat_def
      lower_def lower_char_def)

lemma two_face_attribute:
  "classify_by_attribute two_face_dataset s ''lat_b'' = Inr (fst s, Some ''lat_b'', snd (snd s))"
  by (cases s) (simp add: classify_by_attribute_def strip_def is_space_def get_variable_def
      two_face_dataset_def sample_variable_def lower_def lower_char_def)

theorem location_loop_stops_at_coordinates_witness:
  "search_variables_by_location two_face_dataset ''face'' = [''h''] @ ''zeta'' # [''mask''] \<and>
   get_variable two_face_dataset (Some ''zeta'') =
     Inr (sample_variable [''e''] [(''location'', ''face''), (''coordinates'', ''lat_b'')] [0, 0]) \<and>
   var_attributes (sample_variable [''e''] [(''location'', ''face''), (''coordinates'', ''lat_b'')] [0, 0])
     ''coordinates'' = Some ''lat_b'' \<and>
   fallback two_face_dataset (None, None, None) ''h'' = (Some ''lon_a'', Some ''lat_a'', None) \<and>
   location_loop two_face_dataset (None, None, None)
     (search_variables_by_location two_face_dataset ''face'') =
     Inr (Some ''lon_a'', Some ''lat_b'', None) \<and>
   find_coordinates_by_location two_face_dataset ''face'' 2 = Inr (Some [''lon_a'', ''lat_b''])"
proof -
  have coords: "var_attributes (sample_variable [''e''] [(''location'', ''face''), (''coordinates'', ''lat_b'')] [0, 0])
     ''coordinates'' = Some ''lat_b''"
    by (simp add: sample_variable_def)
  show ?thesis
    using location_loop_stops_at_coordinates [OF two_face_search two_face_h two_face_zeta coords, of 2]
    by (simp add: two_face_search two_face_zeta coords two_face_fallback two_face_attribute)
qed

text \<open>
  Claim C10 as stated says that the classification of the first variable with
  \<^verbatim>\<open>coordinates\<close> is the result. At \<open>two_face_dataset\<close> that variable is \<^verbatim>\<open>zeta\<close>, whose
  attribute names \<^verbatim>\<open>lat_b\<close> only: its classification alone fills the y slot and nothing
  else, which for topology dimension 2 gives \<^verbatim>\<open>None\<close>; the method returns the pair of
  \<^verbatim>\<open>lon_a\<close>, left in the x slot by the fallback for \<^verbatim>\<open>h\<close>, and \<^verbatim>\<open>lat_b\<close>.
\<close>

theorem coordinates_variable_keeps_earlier_slots:
  "find_coordinates_by_location two_face_dataset ''face'' 2 = Inr (Some [''lon_a'', ''lat_b'']) \<and>
   classify_by_attribute two_face_dataset (None, None, None) ''lat_b'' = Inr (None, Some ''lat_b'', None) \<and>
   all_names [None, Some ''lat_b''] = None"
proof -
  have h: "get_variable two_face_dataset (Some ''h'') =
      Inr (sample_variable [''d''] [(''location'', ''face'')] [5, 6])"
    by (simp add: get_variable_def two_face_dataset_def)
  have none: "var_attributes (sample_variable [''d''] [(''location'', ''face'')] [5, 6]) ''coordinates'' = None"
    by (simp add: sample_variable_def)
  have coords: "var_attributes (sample_variable [''e''] [(''location'', ''face''), (''coordinates'', ''lat_b'')] [0, 0])
     ''coordinates'' = Some ''lat_b''"
    by (simp add: sample_variable_def)
  have "location_loop two_face_dataset (None, None, None) [''h'', ''zeta'', ''mask''] =
     location_loop two_face_dataset (Some ''lon_a'', Some ''lat_a'', None) [''zeta'', ''mask'']"
    using location_loop_without_coordinates [OF h none] by (simp only: two_face_fallback)
  also have "\<dots> = Inr (Some ''lon_a'', Some ''lat_b'', None)"
    using location_loop_with_coordinates [OF two_face_zeta coords]
    by (simp only: two_face_attribute fst_conv snd_conv)
  finally have "location_loop two_face_dataset (None, None, None) [''h'', ''zeta'', ''mask''] =
     Inr (Some ''lon_a'', Some ''lat_b'', None)" .
  then show ?thesis
    using two_face_search by (simp add: find_coordinates_by_location_def two_face_attribute)
qed

section \<open>The calls of a load\<close>

text \<open>A sequence of calls returns when each call returns, on the grid the one before left.\<close>

lemma run_steps_Cons_Inr:
  "run_steps (step # steps) g = Inr r \<longleftrightarrow> (\<exists>g'. step g = Inr g' \<and> run_steps steps g' = Inr r)"
  by (cases "step g") simp_all

lemma run_steps_Nil_Inr: "run_steps [] g = Inr r \<longleftrightarrow> r = g"
  by auto

lemma returns_Inr: "returns m g = Inr g' \<longleftrightarrow> g' = m g"
  by (auto simp: returns_def)

lemma del_attr_Inr:
  "del_attr name field field_update g = Inr g' \<longleftrightarrow>
     field g \<noteq> Absent \<and> g' = field_update (\<lambda>_. Absent) g"
  by (cases "field g") (auto simp: del_attr_def)

text \<open>When \<^verbatim>\<open>delete_nd_attributes\<close> returns, every attribute it names is absent.\<close>

lemma sgrid2d_delete_nd_attributes_Inr:
  assumes "sgrid2d_delete_nd_attributes g = Inr r"
  shows "r = g\<lparr>volume_padding := Absent, volume_dimensions := Absent, volume_coordinates := Absent,
               face1_padding := Absent, face1_coordinates := Absent, face1_dimensions := Absent,
               face2_padding := Absent, face2_coordinates := Absent, face2_dimensions := Absent,
               face3_padding := Absent, face3_coordinates := Absent, face3_dimensions := Absent,
               edge3_padding := Absent, edge3_coordinates := Absent, edge3_dimensions := Absent\<rparr>"
  using assms
  by (simp add: sgrid2d_delete_nd_attributes_def run_steps_Cons_Inr run_steps_Nil_Inr del_attr_Inr del: run_steps.simps)

lemma sgrid3d_delete_nd_attributes_Inr:
  assumes "sgrid3d_delete_nd_attributes g = Inr r"
  shows "r = g\<lparr>face_padding := Absent, face_coordinates := Absent, face_dimensions := Absent,
               vertical_padding := Absent, vertical_dimensions := Absent\<rparr>"
  using assms
  by (simp add: sgrid3d_delete_nd_attributes_def run_steps_Cons_Inr run_steps_Nil_Inr del_attr_Inr del: run_steps.simps)

lemma variable_attributes_loop_frame:
  "\<exists>p. variable_attributes_loop X ds vs g = g\<lparr>properties := p\<rparr>"
proof (induction vs arbitrary: g)
  case Nil
  have "g = g\<lparr>properties := properties g\<rparr>" by simp
  then show ?case by (metis variable_attributes_loop.simps(1))
next
  case (Cons v vs)
  obtain k obj where v: "v = (k, obj)" by (cases v)
  from Cons [of "g\<lparr>properties := (properties g)(k \<mapsto>
                \<lparr>variable = k, center_slicing = determine_variable_slicing X g ds k\<rparr>)\<rparr>"]
  obtain p where "variable_attributes_loop X ds (v # vs) g =
     g\<lparr>properties := (properties g)(k \<mapsto>
                \<lparr>variable = k, center_slicing = determine_variable_slicing X g ds k\<rparr>)\<rparr>\<lparr>properties := p\<rparr>"
    by (auto simp: v)
  then show ?case by auto
qed

lemma set_sgrid_variable_attributes_frame:
  "\<exists>p. set_sgrid_variable_attributes X ds g =
     g\<lparr>properties := p,
       variables := Value (map fst (nc_variables ds)),
       grid_variables := Value (map fst (filter (\<lambda>(nc_variable, nc_var). var_attributes nc_var ''grid'' \<noteq> None)
                            (nc_variables ds)))\<rparr>"
proof -
  obtain p where "variable_attributes_loop X ds (nc_variables ds) g = g\<lparr>properties := p\<rparr>"
    using variable_attributes_loop_frame by blast
  then show ?thesis
    unfolding set_sgrid_variable_attributes_def by (intro exI [of _ p]) simp
qed



text \<open>
  A load that returns has passed the compliance check, selected a topology variable of
  dimension 2 or 3, and run every call of its branch.
\<close>

lemma load_Inr:
  assumes "load_grid_from_nc_dataset X ds grid gtv = Inr r"
  obtains tv tvo d where
    "sgrid_compliant_file ds = Inr True"
    "selected_topology_var ds gtv = Inr (Some tv)"
    "get_variable ds (Some tv) = Inr tvo"
    "var_topology_dimension tvo = Some d"
    "d = 2 \<or> d = 3"
    "d = 2 \<Longrightarrow> load_sgrid2d X ds tv tvo
        (grid\<lparr>dimensions := Value (nc_dimensions ds), grid_topology_vars := Value tv\<rparr>) = Inr r"
    "d = 3 \<Longrightarrow> load_sgrid3d X ds tv tvo
        (grid\<lparr>dimensions := Value (nc_dimensions ds), grid_topology_vars := Value tv\<rparr>) = Inr r"
  using assms
  by (auto simp: load_grid_from_nc_dataset_def Let_def split: sum.splits bool.splits option.splits if_splits)

lemma load_sgrid2d_Inr:
  assumes "load_sgrid2d X ds tv tvo g = Inr r"
  obtains g3 g5 g7 g8 g9 g11 where
    "set_sgrid_topology tvo (set_topology_dimension 2 (set_dimensions ds g)) = Inr g3"
    "set_sgrid_node_coordinates X ds tvo (set_sgrid_vertical_dimensions X tv tvo g3) = Inr g5"
    "sgrid2d_set_all_face_attributes X ds tv tvo (set_all_edge_attributes X tv tvo g5) = Inr g7"
    "sgrid2d_set_cell_center_lat_lon X ds g7 = Inr g8"
    "sgrid2d_set_cell_node_lat_lon X ds g8 = Inr g9"
    "set_sgrid_time ds (set_sgrid_angles ds g9) = Inr g11"
    "sgrid2d_delete_nd_attributes (set_sgrid_variable_attributes X ds g11) = Inr r"
  using assms
  by (auto simp add: load_sgrid2d_def run_steps_Cons_Inr run_steps_Nil_Inr returns_Inr
      simp del: run_steps.simps)

lemma load_sgrid3d_Inr:
  assumes "load_sgrid3d X ds tv tvo g = Inr r"
  obtains g3 g4 g8 g9 g12 where
    "set_sgrid_topology tvo (set_topology_dimension 3 (set_dimensions ds g)) = Inr g3"
    "set_sgrid_node_coordinates X ds tvo g3 = Inr g4"
    "set_volume_coordinates ds tvo
       (set_volume_dimensions X tv tvo
          (sgrid3d_set_all_face_attributes X tv tvo
             (sgrid3d_set_all_edge_attributes X tv tvo g4))) = Inr g8"
    "sgrid3d_set_cell_center_lat_lon X ds g8 = Inr g9"
    "set_sgrid_time ds (set_sgrid_angles ds (sgrid3d_set_cell_node_lat_lon g9)) = Inr g12"
    "sgrid3d_delete_nd_attributes (set_sgrid_variable_attributes X ds g12) = Inr r"
  using assms
  by (auto simp add: load_sgrid3d_def run_steps_Cons_Inr run_steps_Nil_Inr returns_Inr
      simp del: run_steps.simps)

text \<open>The attributes each method leaves as they were.\<close>

lemma set_dimensions_keeps:
  "grid_times (set_dimensions ds g) = grid_times g \<and>
   topology_dimension (set_dimensions ds g) = topology_dimension g \<and>
   face_coordinates (set_dimensions ds g) = face_coordinates g \<and>
   face_dimensions (set_dimensions ds g) = face_dimensions g \<and>
   face_padding (set_dimensions ds g) = face_padding g \<and>
   volume_coordinates (set_dimensions ds g) = volume_coordinates g \<and>
   volume_dimensions (set_dimensions ds g) = volume_dimensions g \<and>
   volume_padding (set_dimensions ds g) = volume_padding g"
  by (simp add: set_dimensions_def split: option.splits)

lemma set_sgrid_vertical_dimensions_keeps:
  "grid_times (set_sgrid_vertical_dimensions X tv tvo g) = grid_times g \<and>
   topology_dimension (set_sgrid_vertical_dimensions X tv tvo g) = topology_dimension g \<and>
   face_coordinates (set_sgrid_vertical_dimensions X tv tvo g) = face_coordinates g \<and>
   face_dimensions (set_sgrid_vertical_dimensions X tv tvo g) = face_dimensions g \<and>
   face_padding (set_sgrid_vertical_dimensions X tv tvo g) = face_padding g \<and>
   volume_coordinates (set_sgrid_vertical_dimensions X tv tvo g) = volume_coordinates g \<and>
   volume_dimensions (set_sgrid_vertical_dimensions X tv tvo g) = volume_dimensions g \<and>
   volume_padding (set_sgrid_vertical_dimensions X tv tvo g) = volume_padding g"
  by (simp add: set_sgrid_vertical_dimensions_def split: option.splits)

lemma set_all_edge_attributes_keeps:
  "grid_times (set_all_edge_attributes X tv tvo g) = grid_times g \<and>
   topology_dimension (set_all_edge_attributes X tv tvo g) = topology_dimension g \<and>
   face_coordinates (set_all_edge_attributes X tv tvo g) = face_coordinates g \<and>
   face_dimensions (set_all_edge_attributes X tv tvo g) = face_dimensions g \<and>
   face_padding (set_all_edge_attributes X tv tvo g) = face_padding g \<and>
   volume_coordinates (set_all_edge_attributes X tv tvo g) = volume_coordinates g \<and>
   volume_dimensions (set_all_edge_attributes X tv tvo g) = volume_dimensions g \<and>
   volume_padding (set_all_edge_attributes X tv tvo g) = volume_padding g"
  by (simp add: set_all_edge_attributes_def set_edge1_dimensions_def set_edge1_coordinates_def set_edge2_dimensions_def set_edge2_coordinates_def split: option.splits)

lemma sgrid3d_set_all_edge_attributes_keeps:
  "grid_times (sgrid3d_set_all_edge_attributes X tv tvo g) = grid_times g \<and>
   topology_dimension (sgrid3d_set_all_edge_attributes X tv tvo g) = topology_dimension g \<and>
   face_coordinates (sgrid3d_set_all_edge_attributes X tv tvo g) = face_coordinates g \<and>
   face_dimensions (sgrid3d_set_all_edge_attributes X tv tvo g) = face_dimensions g \<and>
   face_padding (sgrid3d_set_all_edge_attributes X tv tvo g) = face_padding g \<and>
   volume_coordinates (sgrid3d_set_all_edge_attributes X tv tvo g) = volume_coordinates g \<and>
   volume_dimensions (sgrid3d_set_all_edge_attributes X tv tvo g) = volume_dimensions g \<and>
   volume_padding (sgrid3d_set_all_edge_attributes X tv tvo g) = volume_padding g"
  by (simp add: sgrid3d_set_all_edge_attributes_def set_edge1_dimensions_def set_edge1_coordinates_def set_edge2_dimensions_def set_edge2_coordinates_def set_edge3_dimensions_def set_edge3_coordinates_def split: option.splits)

lemma sgrid3d_set_all_face_attributes_keeps:
  "grid_times (sgrid3d_set_all_face_attributes X tv tvo g) = grid_times g \<and>
   topology_dimension (sgrid3d_set_all_face_attributes X tv tvo g) = topology_dimension g \<and>
   face_coordinates (sgrid3d_set_all_face_attributes X tv tvo g) = face_coordinates g \<and>
   face_dimensions (sgrid3d_set_all_face_attributes X tv tvo g) = face_dimensions g \<and>
   face_padding (sgrid3d_set_all_face_attributes X tv tvo g) = face_padding g \<and>
   volume_coordinates (sgrid3d_set_all_face_attributes X tv tvo g) = volume_coordinates g \<and>
   volume_dimensions (sgrid3d_set_all_face_attributes X tv tvo g) = volume_dimensions g \<and>
   volume_padding (sgrid3d_set_all_face_attributes X tv tvo g) = volume_padding g"
  by (simp add: sgrid3d_set_all_face_attributes_def set_face1_dimensions_def set_face1_coordinates_def set_face2_dimensions_def set_face2_coordinates_def set_face3_dimensions_def set_face3_coordinates_def split: option.splits)

lemma set_face_dimensions_keeps:
  "grid_times (set_face_dimensions X tv tvo g) = grid_times g \<and>
   topology_dimension (set_face_dimensions X tv tvo g) = topology_dimension g \<and>
   face_coordinates (set_face_dimensions X tv tvo g) = face_coordinates g \<and>
   volume_coordinates (set_face_dimensions X tv tvo g) = volume_coordinates g \<and>
   volume_dimensions (set_face_dimensions X tv tvo g) = volume_dimensions g \<and>
   volume_padding (set_face_dimensions X tv tvo g) = volume_padding g"
  by (simp add: set_face_dimensions_def split: option.splits)

lemma set_volume_dimensions_keeps:
  "grid_times (set_volume_dimensions X tv tvo g) = grid_times g \<and>
   topology_dimension (set_volume_dimensions X tv tvo g) = topology_dimension g \<and>
   face_coordinates (set_volume_dimensions X tv tvo g) = face_coordinates g \<and>
   face_dimensions (set_volume_dimensions X tv tvo g) = face_dimensions g \<and>
   face_padding (set_volume_dimensions X tv tvo g) = face_padding g \<and>
   volume_coordinates (set_volume_dimensions X tv tvo g) = volume_coordinates g"
  by (simp add: set_volume_dimensions_def split: option.splits)

lemma set_sgrid_angles_keeps:
  "grid_times (set_sgrid_angles ds g) = grid_times g \<and>
   topology_dimension (set_sgrid_angles ds g) = topology_dimension g \<and>
   face_coordinates (set_sgrid_angles ds g) = face_coordinates g \<and>
   face_dimensions (set_sgrid_angles ds g) = face_dimensions g \<and>
   face_padding (set_sgrid_angles ds g) = face_padding g \<and>
   volume_coordinates (set_sgrid_angles ds g) = volume_coordinates g \<and>
   volume_dimensions (set_sgrid_angles ds g) = volume_dimensions g \<and>
   volume_padding (set_sgrid_angles ds g) = volume_padding g"
  by (simp add: set_sgrid_angles_def split: sum.splits)

lemma set_sgrid_node_coordinates_keeps:
  "set_sgrid_node_coordinates X ds tvo g = Inr g' \<Longrightarrow>
     grid_times g' = grid_times g \<and>
     topology_dimension g' = topology_dimension g \<and>
     face_coordinates g' = face_coordinates g \<and>
     face_dimensions g' = face_dimensions g \<and>
     face_padding g' = face_padding g \<and>
     volume_coordinates g' = volume_coordinates g \<and>
     volume_dimensions g' = volume_dimensions g \<and>
     volume_padding g' = volume_padding g"
  by (auto simp add: set_sgrid_node_coordinates_def split: option.splits prod.splits)

lemma set_face_coordindates_keeps:
  "set_face_coordindates ds tvo g = Inr g' \<Longrightarrow>
     grid_times g' = grid_times g \<and>
     topology_dimension g' = topology_dimension g \<and>
     face_dimensions g' = face_dimensions g \<and>
     face_padding g' = face_padding g \<and>
     volume_coordinates g' = volume_coordinates g \<and>
     volume_dimensions g' = volume_dimensions g \<and>
     volume_padding g' = volume_padding g"
  by (auto simp add: set_face_coordindates_def split: option.splits sum.splits)

lemma set_volume_coordinates_keeps:
  "set_volume_coordinates ds tvo g = Inr g' \<Longrightarrow>
     grid_times g' = grid_times g \<and>
     topology_dimension g' = topology_dimension g \<and>
     face_coordinates g' = face_coordinates g \<and>
     face_dimensions g' = face_dimensions g \<and>
     face_padding g' = face_padding g \<and>
     volume_dimensions g' = volume_dimensions g \<and>
     volume_padding g' = volume_padding g"
  by (auto simp add: set_volume_coordinates_def split: option.splits sum.splits)

lemma sgrid2d_set_cell_center_lat_lon_keeps:
  "sgrid2d_set_cell_center_lat_lon X ds g = Inr g' \<Longrightarrow>
     (\<exists>lon lat. face_coordinates g = Value [lon, lat]) \<and>
     grid_times g' = grid_times g \<and>
     topology_dimension g' = topology_dimension g \<and>
     face_coordinates g' = face_coordinates g \<and>
     face_dimensions g' = face_dimensions g \<and>
     face_padding g' = face_padding g \<and>
     volume_coordinates g' = volume_coordinates g \<and>
     volume_dimensions g' = volume_dimensions g \<and>
     volume_padding g' = volume_padding g"
  by (auto simp add: sgrid2d_set_cell_center_lat_lon_def split: attr.splits list.splits sum.splits)

lemma sgrid2d_set_cell_node_lat_lon_keeps:
  "sgrid2d_set_cell_node_lat_lon X ds g = Inr g' \<Longrightarrow>
     grid_times g' = grid_times g \<and>
     topology_dimension g' = topology_dimension g \<and>
     face_coordinates g' = face_coordinates g \<and>
     face_dimensions g' = face_dimensions g \<and>
     face_padding g' = face_padding g \<and>
     volume_coordinates g' = volume_coordinates g \<and>
     volume_dimensions g' = volume_dimensions g \<and>
     volume_padding g' = volume_padding g"
  by (auto simp add: sgrid2d_set_cell_node_lat_lon_def split: attr.splits list.splits sum.splits)

lemma sgrid3d_set_cell_center_lat_lon_keeps:
  "sgrid3d_set_cell_center_lat_lon X ds g = Inr g' \<Longrightarrow>
     (\<exists>lon lat rest. volume_coordinates g = Value (lon # lat # rest)) \<and>
     grid_times g' = grid_times g \<and>
     topology_dimension g' = topology_dimension g \<and>
     face_coordinates g' = face_coordinates g \<and>
     face_dimensions g' = face_dimensions g \<and>
     face_padding g' = face_padding g \<and>
     volume_coordinates g' = volume_coordinates g \<and>
     volume_dimensions g' = volume_dimensions g \<and>
     volume_padding g' = volume_padding g"
  by (auto simp add: sgrid3d_set_cell_center_lat_lon_def split: attr.splits list.splits sum.splits)

lemma set_sgrid_time_keeps:
  "set_sgrid_time ds g = Inr g' \<Longrightarrow>
     topology_dimension g' = topology_dimension g \<and>
     face_coordinates g' = face_coordinates g \<and>
     face_dimensions g' = face_dimensions g \<and>
     face_padding g' = face_padding g \<and>
     volume_coordinates g' = volume_coordinates g \<and>
     volume_dimensions g' = volume_dimensions g \<and>
     volume_padding g' = volume_padding g"
  by (auto simp add: set_sgrid_time_def split: sum.splits)

lemma set_sgrid_variable_attributes_keeps:
  "grid_times (set_sgrid_variable_attributes X ds g) = grid_times g \<and>
   topology_dimension (set_sgrid_variable_attributes X ds g) = topology_dimension g \<and>
   face_coordinates (set_sgrid_variable_attributes X ds g) = face_coordinates g \<and>
   face_dimensions (set_sgrid_variable_attributes X ds g) = face_dimensions g \<and>
   face_padding (set_sgrid_variable_attributes X ds g) = face_padding g \<and>
   volume_coordinates (set_sgrid_variable_attributes X ds g) = volume_coordinates g \<and>
   volume_dimensions (set_sgrid_variable_attributes X ds g) = volume_dimensions g \<and>
   volume_padding (set_sgrid_variable_attributes X ds g) = volume_padding g"
proof -
  obtain p where "set_sgrid_variable_attributes X ds g =
     g\<lparr>properties := p,
       variables := Value (map fst (nc_variables ds)),
       grid_variables := Value (map fst (filter (\<lambda>(nc_variable, nc_var). var_attributes nc_var ''grid'' \<noteq> None)
                            (nc_variables ds)))\<rparr>"
    using set_sgrid_variable_attributes_frame by blast
  then show ?thesis by simp
qed




section \<open>The grid a load returns\<close>

lemma set_sgrid_topology_Inr:
  "set_sgrid_topology tvo g = Inr g' \<longleftrightarrow>
     (\<exists>d. var_topology_dimension tvo = Some d \<and> g' = g\<lparr>topology_dimension := Value d\<rparr>)"
  by (auto simp: set_sgrid_topology_def split: option.splits)

text \<open>What each branch of the load leaves in the grid it returns.\<close>

lemma load_sgrid2d_result:
  assumes l: "load_sgrid2d X ds tv tvo g = Inr r"
  shows "topology_dimension r = Value 2 \<longrightarrow> var_topology_dimension tvo = Some 2"
    and "var_topology_dimension tvo = Some d \<longrightarrow> topology_dimension r = Value d"
    and "volume_padding r = Absent \<and> volume_dimensions r = Absent \<and> volume_coordinates r = Absent \<and>
         face1_padding r = Absent \<and> face1_coordinates r = Absent \<and> face1_dimensions r = Absent \<and>
         face2_padding r = Absent \<and> face2_coordinates r = Absent \<and> face2_dimensions r = Absent \<and>
         face3_padding r = Absent \<and> face3_coordinates r = Absent \<and> face3_dimensions r = Absent \<and>
         edge3_padding r = Absent \<and> edge3_coordinates r = Absent \<and> edge3_dimensions r = Absent"
    and "\<exists>lon lat. face_coordinates r = Value [lon, lat]"
    and "face_dimensions r = face_dimensions (set_face_dimensions X tv tvo g) \<and>
         face_padding r = face_padding (set_face_dimensions X tv tvo g)"
proof -
  from load_sgrid2d_Inr [OF l] obtain g3 g5 g7 g8 g9 g11 where
    s3: "set_sgrid_topology tvo (set_topology_dimension 2 (set_dimensions ds g)) = Inr g3"
    and s5: "set_sgrid_node_coordinates X ds tvo (set_sgrid_vertical_dimensions X tv tvo g3) = Inr g5"
    and s7: "sgrid2d_set_all_face_attributes X ds tv tvo (set_all_edge_attributes X tv tvo g5) = Inr g7"
    and s8: "sgrid2d_set_cell_center_lat_lon X ds g7 = Inr g8"
    and s9: "sgrid2d_set_cell_node_lat_lon X ds g8 = Inr g9"
    and s11: "set_sgrid_time ds (set_sgrid_angles ds g9) = Inr g11"
    and del: "sgrid2d_delete_nd_attributes (set_sgrid_variable_attributes X ds g11) = Inr r"
    by blast
  note r = sgrid2d_delete_nd_attributes_Inr [OF del]
  note k13 = set_sgrid_variable_attributes_keeps [of X ds g11]
  note k11 = set_sgrid_time_keeps [OF s11]
  note k10 = set_sgrid_angles_keeps [of ds g9]
  note k9 = sgrid2d_set_cell_node_lat_lon_keeps [OF s9]
  note k8 = sgrid2d_set_cell_center_lat_lon_keeps [OF s8]
  note k7 = set_face_coordindates_keeps [OF s7 [unfolded sgrid2d_set_all_face_attributes_def]]
  note k7' = set_face_dimensions_keeps [of X tv tvo "set_all_edge_attributes X tv tvo g5"]
  note k6 = set_all_edge_attributes_keeps [of X tv tvo g5]
  note k5 = set_sgrid_node_coordinates_keeps [OF s5]
  note k4 = set_sgrid_vertical_dimensions_keeps [of X tv tvo g3]
  from s3 obtain d' where d': "var_topology_dimension tvo = Some d'"
    and g3: "g3 = set_topology_dimension 2 (set_dimensions ds g)\<lparr>topology_dimension := Value d'\<rparr>"
    by (auto simp: set_sgrid_topology_Inr)
  have td: "topology_dimension r = Value d'"
    using r k13 k11 k10 k9 k8 k7 k7' k6 k5 k4 g3 by simp
  show "topology_dimension r = Value 2 \<longrightarrow> var_topology_dimension tvo = Some 2"
    using td d' by simp
  show "var_topology_dimension tvo = Some d \<longrightarrow> topology_dimension r = Value d"
    using td d' by simp
  show "volume_padding r = Absent \<and> volume_dimensions r = Absent \<and> volume_coordinates r = Absent \<and>
         face1_padding r = Absent \<and> face1_coordinates r = Absent \<and> face1_dimensions r = Absent \<and>
         face2_padding r = Absent \<and> face2_coordinates r = Absent \<and> face2_dimensions r = Absent \<and>
         face3_padding r = Absent \<and> face3_coordinates r = Absent \<and> face3_dimensions r = Absent \<and>
         edge3_padding r = Absent \<and> edge3_coordinates r = Absent \<and> edge3_dimensions r = Absent"
    by (simp add: r)
  have "face_coordinates r = face_coordinates g7"
    using r k13 k11 k10 k9 k8 by simp
  then show "\<exists>lon lat. face_coordinates r = Value [lon, lat]"
    using k8 by simp
  have fd: "face_dimensions r = face_dimensions (set_face_dimensions X tv tvo (set_all_edge_attributes X tv tvo g5)) \<and>
        face_padding r = face_padding (set_face_dimensions X tv tvo (set_all_edge_attributes X tv tvo g5))"
    using r k13 k11 k10 k9 k8 k7 by simp
  have pre: "face_dimensions (set_all_edge_attributes X tv tvo g5) = face_dimensions g \<and>
        face_padding (set_all_edge_attributes X tv tvo g5) = face_padding g"
    using k6 k5 k4 g3 by (simp add: set_topology_dimension_def set_dimensions_def)
  show "face_dimensions r = face_dimensions (set_face_dimensions X tv tvo g) \<and>
         face_padding r = face_padding (set_face_dimensions X tv tvo g)"
    using fd pre by (simp add: set_face_dimensions_def split: option.splits)
qed


lemma load_sgrid3d_result:
  assumes l: "load_sgrid3d X ds tv tvo g = Inr r"
  shows "var_topology_dimension tvo = Some d \<longrightarrow> topology_dimension r = Value d"
    and "face_padding r = Absent \<and> face_coordinates r = Absent \<and> face_dimensions r = Absent \<and>
         vertical_padding r = Absent \<and> vertical_dimensions r = Absent"
    and "\<exists>lon lat rest. volume_coordinates r = Value (lon # lat # rest)"
    and "volume_dimensions r = volume_dimensions (set_volume_dimensions X tv tvo g) \<and>
         volume_padding r = volume_padding (set_volume_dimensions X tv tvo g)"
proof -
  from load_sgrid3d_Inr [OF l] obtain g3 g4 g8 g9 g12 where
    s3: "set_sgrid_topology tvo (set_topology_dimension 3 (set_dimensions ds g)) = Inr g3"
    and s4: "set_sgrid_node_coordinates X ds tvo g3 = Inr g4"
    and s8: "set_volume_coordinates ds tvo
       (set_volume_dimensions X tv tvo
          (sgrid3d_set_all_face_attributes X tv tvo
             (sgrid3d_set_all_edge_attributes X tv tvo g4))) = Inr g8"
    and s9: "sgrid3d_set_cell_center_lat_lon X ds g8 = Inr g9"
    and s12: "set_sgrid_time ds (set_sgrid_angles ds (sgrid3d_set_cell_node_lat_lon g9)) = Inr g12"
    and del: "sgrid3d_delete_nd_attributes (set_sgrid_variable_attributes X ds g12) = Inr r"
    by blast
  note r = sgrid3d_delete_nd_attributes_Inr [OF del]
  note k13 = set_sgrid_variable_attributes_keeps [of X ds g12]
  note k12 = set_sgrid_time_keeps [OF s12]
  note k11 = set_sgrid_angles_keeps [of ds "sgrid3d_set_cell_node_lat_lon g9"]
  note k9 = sgrid3d_set_cell_center_lat_lon_keeps [OF s9]
  note k8 = set_volume_coordinates_keeps [OF s8]
  note k7 = set_volume_dimensions_keeps [of X tv tvo "sgrid3d_set_all_face_attributes X tv tvo
             (sgrid3d_set_all_edge_attributes X tv tvo g4)"]
  note k6 = sgrid3d_set_all_face_attributes_keeps [of X tv tvo "sgrid3d_set_all_edge_attributes X tv tvo g4"]
  note k5 = sgrid3d_set_all_edge_attributes_keeps [of X tv tvo g4]
  note k4 = set_sgrid_node_coordinates_keeps [OF s4]
  from s3 obtain d' where d': "var_topology_dimension tvo = Some d'"
    and g3: "g3 = set_topology_dimension 3 (set_dimensions ds g)\<lparr>topology_dimension := Value d'\<rparr>"
    by (auto simp: set_sgrid_topology_Inr)
  have td: "topology_dimension r = Value d'"
    using r k13 k12 k11 k9 k8 k7 k6 k5 k4 g3 by (simp add: sgrid3d_set_cell_node_lat_lon_def)
  show "var_topology_dimension tvo = Some d \<longrightarrow> topology_dimension r = Value d"
    using td d' by simp
  show "face_padding r = Absent \<and> face_coordinates r = Absent \<and> face_dimensions r = Absent \<and>
         vertical_padding r = Absent \<and> vertical_dimensions r = Absent"
    by (simp add: r)
  have "volume_coordinates r = volume_coordinates g8"
    using r k13 k12 k11 k9 by (simp add: sgrid3d_set_cell_node_lat_lon_def)
  then show "\<exists>lon lat rest. volume_coordinates r = Value (lon # lat # rest)"
    using k9 by simp
  have vd: "volume_dimensions r = volume_dimensions (set_volume_dimensions X tv tvo
          (sgrid3d_set_all_face_attributes X tv tvo (sgrid3d_set_all_edge_attributes X tv tvo g4))) \<and>
        volume_padding r = volume_padding (set_volume_dimensions X tv tvo
          (sgrid3d_set_all_face_attributes X tv tvo (sgrid3d_set_all_edge_attributes X tv tvo g4)))"
    using r k13 k12 k11 k9 k8 by (simp add: sgrid3d_set_cell_node_lat_lon_def)
  have pre: "volume_dimensions (sgrid3d_set_all_face_attributes X tv tvo
               (sgrid3d_set_all_edge_attributes X tv tvo g4)) = volume_dimensions g \<and>
        volume_padding (sgrid3d_set_all_face_attributes X tv tvo
               (sgrid3d_set_all_edge_attributes X tv tvo g4)) = volume_padding g"
    using k6 k5 k4 g3 by (simp add: set_topology_dimension_def set_dimensions_def)
  show "volume_dimensions r = volume_dimensions (set_volume_dimensions X tv tvo g) \<and>
         volume_padding r = volume_padding (set_volume_dimensions X tv tvo g)"
    using vd pre by (simp add: set_volume_dimensions_def split: option.splits)
qed

text \<open>
  Claim C5, amended. A grid the load returns has topology dimension 2 or 3, that of the
  topology variable. For 2: each of the fifteen attributes \<^verbatim>\<open>SGrid2D.delete_nd_attributes\<close>
  names (the volume, face1, face2 and face3 groups and \<^verbatim>\<open>edge3_padding\<close>,
  \<^verbatim>\<open>edge3_coordinates\<close>, \<^verbatim>\<open>edge3_dimensions\<close>) is absent; \<^verbatim>\<open>face_coordinates\<close> is set to a
  pair of names; \<^verbatim>\<open>face_dimensions\<close> and \<^verbatim>\<open>face_padding\<close> are set when the topology variable
  has a \<^verbatim>\<open>face_dimensions\<close> attribute, and are otherwise as the grid passed in had them.
  For 3: each of the five attributes \<^verbatim>\<open>SGrid3D.delete_nd_attributes\<close> names (the face
  group and the vertical group) is absent; \<^verbatim>\<open>volume_coordinates\<close> is set to at least two
  names; \<^verbatim>\<open>volume_dimensions\<close> and \<^verbatim>\<open>volume_padding\<close> are set when the topology variable
  has a \<^verbatim>\<open>volume_dimensions\<close> attribute, and are otherwise as the grid passed in had
  them.
\<close>

theorem load_leaves_one_topology_group:
  assumes "load_grid_from_nc_dataset X ds grid grid_topology_vars' = Inr grid'"
    and "selected_topology_var ds grid_topology_vars' = Inr (Some topology_var')"
    and "get_variable ds (Some topology_var') = Inr nc_grid_topology_var"
  shows "(var_topology_dimension nc_grid_topology_var = Some 2 \<and> topology_dimension grid' = Value 2 \<or>
          var_topology_dimension nc_grid_topology_var = Some 3 \<and> topology_dimension grid' = Value 3) \<and>
         (topology_dimension grid' = Value 2 \<longrightarrow>
            volume_padding grid' = Absent \<and> volume_dimensions grid' = Absent \<and>
            volume_coordinates grid' = Absent \<and>
            face1_padding grid' = Absent \<and> face1_coordinates grid' = Absent \<and>
            face1_dimensions grid' = Absent \<and>
            face2_padding grid' = Absent \<and> face2_coordinates grid' = Absent \<and>
            face2_dimensions grid' = Absent \<and>
            face3_padding grid' = Absent \<and> face3_coordinates grid' = Absent \<and>
            face3_dimensions grid' = Absent \<and>
            edge3_padding grid' = Absent \<and> edge3_coordinates grid' = Absent \<and>
            edge3_dimensions grid' = Absent \<and>
            (\<exists>lon lat. face_coordinates grid' = Value [lon, lat]) \<and>
            (case var_attributes nc_grid_topology_var ''face_dimensions'' of
               None \<Rightarrow> face_dimensions grid' = face_dimensions grid \<and>
                       face_padding grid' = face_padding grid
             | Some face_dim \<Rightarrow>
                 face_dimensions grid' = Value face_dim \<and>
                 face_padding grid' = Value (parse_padding X topology_var' face_dim))) \<and>
         (topology_dimension grid' = Value 3 \<longrightarrow>
            face_padding grid' = Absent \<and> face_coordinates grid' = Absent \<and>
            face_dimensions grid' = Absent \<and>
            vertical_padding grid' = Absent \<and> vertical_dimensions grid' = Absent \<and>
            (\<exists>lon lat rest. volume_coordinates grid' = Value (lon # lat # rest)) \<and>
            (case var_attributes nc_grid_topology_var ''volume_dimensions'' of
               None \<Rightarrow> volume_dimensions grid' = volume_dimensions grid \<and>
                       volume_padding grid' = volume_padding grid
             | Some vol_dim \<Rightarrow>
                 volume_dimensions grid' = Value vol_dim \<and>
                 volume_padding grid' = Value (parse_padding X topology_var' vol_dim)))"
proof -
  let ?g = "grid\<lparr>dimensions := Value (nc_dimensions ds), grid_topology_vars := Value topology_var'\<rparr>"
  from assms(1) obtain tv tvo and d :: int where
    sel: "selected_topology_var ds grid_topology_vars' = Inr (Some tv)"
    and var: "get_variable ds (Some tv) = Inr tvo"
    and dim: "var_topology_dimension tvo = Some d"
    and d: "d = 2 \<or> d = 3"
    and l2: "d = 2 \<Longrightarrow> load_sgrid2d X ds tv tvo
        (grid\<lparr>dimensions := Value (nc_dimensions ds), grid_topology_vars := Value tv\<rparr>) = Inr grid'"
    and l3: "d = 3 \<Longrightarrow> load_sgrid3d X ds tv tvo
        (grid\<lparr>dimensions := Value (nc_dimensions ds), grid_topology_vars := Value tv\<rparr>) = Inr grid'"
    by (rule load_Inr) blast
  have tv: "tv = topology_var'" using sel assms(2) by simp
  have tvo: "tvo = nc_grid_topology_var" using var assms(3) tv by simp
  from d show ?thesis
  proof
    assume d2: "d = 2"
    have l: "load_sgrid2d X ds topology_var' nc_grid_topology_var ?g = Inr grid'"
      using l2 [OF d2] tv tvo by simp
    have dim2: "var_topology_dimension nc_grid_topology_var = Some 2"
      using dim d2 tvo by simp
    have td: "topology_dimension grid' = Value 2"
      using load_sgrid2d_result(2) [OF l, of 2] dim2 by simp
    have fd: "(case var_attributes nc_grid_topology_var ''face_dimensions'' of
               None \<Rightarrow> face_dimensions grid' = face_dimensions grid \<and>
                       face_padding grid' = face_padding grid
             | Some face_dim \<Rightarrow>
                 face_dimensions grid' = Value face_dim \<and>
                 face_padding grid' = Value (parse_padding X topology_var' face_dim))"
      using load_sgrid2d_result(5) [OF l]
      by (simp add: set_face_dimensions_def split: option.splits)
    show ?thesis
      using dim2 td fd load_sgrid2d_result(3) [OF l] load_sgrid2d_result(4) [OF l]
      by simp
  next
    assume d3: "d = 3"
    have l: "load_sgrid3d X ds topology_var' nc_grid_topology_var ?g = Inr grid'"
      using l3 [OF d3] tv tvo by simp
    have dim3: "var_topology_dimension nc_grid_topology_var = Some 3"
      using dim d3 tvo by simp
    have td: "topology_dimension grid' = Value 3"
      using load_sgrid3d_result(1) [OF l, of 3] dim3 by simp
    have vd: "(case var_attributes nc_grid_topology_var ''volume_dimensions'' of
               None \<Rightarrow> volume_dimensions grid' = volume_dimensions grid \<and>
                       volume_padding grid' = volume_padding grid
             | Some vol_dim \<Rightarrow>
                 volume_dimensions grid' = Value vol_dim \<and>
                 volume_padding grid' = Value (parse_padding X topology_var' vol_dim))"
      using load_sgrid3d_result(4) [OF l]
      by (simp add: set_volume_dimensions_def split: option.splits)
    show ?thesis
      using dim3 td vd load_sgrid3d_result(2) [OF l] load_sgrid3d_result(3) [OF l]
      by simp
  qed
qed

text \<open>
  Claim C5 as stated says that a grid of topology dimension 2 has \<^verbatim>\<open>face_dimensions\<close>
  set. The topology variable of \<open>grid2d_dataset\<close> has no \<^verbatim>\<open>face_dimensions\<close> attribute:
  the load into a fresh grid returns a grid of topology dimension 2 whose
  \<^verbatim>\<open>face_dimensions\<close> and \<^verbatim>\<open>face_padding\<close> are unset.
\<close>

theorem load_grid2d_dataset_face_dimensions_unset:
  "attribute_of topology_dimension
     (load_grid_from_nc_dataset sample_externals grid2d_dataset fresh_sgrid None) = Inr (Value 2) \<and>
   attribute_of face_dimensions
     (load_grid_from_nc_dataset sample_externals grid2d_dataset fresh_sgrid None) = Inr Unset \<and>
   attribute_of face_padding
     (load_grid_from_nc_dataset sample_externals grid2d_dataset fresh_sgrid None) = Inr Unset"
  by code_simp

theorem load_leaves_one_topology_group_witness:
  "selected_topology_var grid2d_dataset None = Inr (Some ''grid'') \<and>
   attribute_of topology_dimension
     (load_grid_from_nc_dataset sample_externals grid2d_dataset fresh_sgrid None) = Inr (Value 2) \<and>
   attribute_of volume_padding
     (load_grid_from_nc_dataset sample_externals grid2d_dataset fresh_sgrid None) = Inr Absent \<and>
   attribute_of face1_dimensions
     (load_grid_from_nc_dataset sample_externals grid2d_dataset fresh_sgrid None) = Inr Absent \<and>
   attribute_of edge3_dimensions
     (load_grid_from_nc_dataset sample_externals grid2d_dataset fresh_sgrid None) = Inr Absent \<and>
   attribute_of face_coordinates
     (load_grid_from_nc_dataset sample_externals grid2d_dataset fresh_sgrid None) =
     Inr (Value [''lon_rho'', ''lat_rho'']) \<and>
   selected_topology_var grid3d_dataset None = Inr (Some ''grid'') \<and>
   attribute_of topology_dimension
     (load_grid_from_nc_dataset sample_externals grid3d_dataset fresh_sgrid None) = Inr (Value 3) \<and>
   attribute_of face_dimensions
     (load_grid_from_nc_dataset sample_externals grid3d_dataset fresh_sgrid None) = Inr Absent \<and>
   attribute_of vertical_dimensions
     (load_grid_from_nc_dataset sample_externals grid3d_dataset fresh_sgrid None) = Inr Absent \<and>
   attribute_of volume_dimensions
     (load_grid_from_nc_dataset sample_externals grid3d_dataset fresh_sgrid None) =
     Inr (Value ''xi_rho: xi_psi (padding: both)'')"
proof -
  have sel2: "selected_topology_var grid2d_dataset None = Inr (Some ''grid'')"
    by code_simp
  have sel3: "selected_topology_var grid3d_dataset None = Inr (Some ''grid'')"
    by code_simp
  have "case load_grid_from_nc_dataset sample_externals grid2d_dataset fresh_sgrid None of
          Inl e \<Rightarrow> False | Inr r \<Rightarrow> True"
    by code_simp
  then obtain r2 where r2: "load_grid_from_nc_dataset sample_externals grid2d_dataset fresh_sgrid None = Inr r2"
    by (auto split: sum.splits)
  have "case load_grid_from_nc_dataset sample_externals grid3d_dataset fresh_sgrid None of
          Inl e \<Rightarrow> False | Inr r \<Rightarrow> True"
    by code_simp
  then obtain r3 where r3: "load_grid_from_nc_dataset sample_externals grid3d_dataset fresh_sgrid None = Inr r3"
    by (auto split: sum.splits)
  obtain v2 where v2: "get_variable grid2d_dataset (Some ''grid'') = Inr v2"
    by (simp add: get_variable_def grid2d_dataset_def)
  obtain v3 where v3: "get_variable grid3d_dataset (Some ''grid'') = Inr v3"
    by (simp add: get_variable_def grid3d_dataset_def)
  have fc: "attribute_of face_coordinates
     (load_grid_from_nc_dataset sample_externals grid2d_dataset fresh_sgrid None) =
     Inr (Value [''lon_rho'', ''lat_rho''])"
    by code_simp
  have vd: "attribute_of volume_dimensions
     (load_grid_from_nc_dataset sample_externals grid3d_dataset fresh_sgrid None) =
     Inr (Value ''xi_rho: xi_psi (padding: both)'')"
    by code_simp
  have d2: "attribute_of topology_dimension
     (load_grid_from_nc_dataset sample_externals grid2d_dataset fresh_sgrid None) = Inr (Value 2)"
    by code_simp
  have d3: "attribute_of topology_dimension
     (load_grid_from_nc_dataset sample_externals grid3d_dataset fresh_sgrid None) = Inr (Value 3)"
    by code_simp
  have t2: "topology_dimension r2 = Value 2" using d2 by (simp add: r2 attribute_of_def)
  have t3: "topology_dimension r3 = Value 3" using d3 by (simp add: r3 attribute_of_def)
  show ?thesis
    using load_leaves_one_topology_group [OF r2 sel2 v2] load_leaves_one_topology_group [OF r3 sel3 v3] t2 t3 fc vd sel2 sel3
    by (simp add: attribute_of_def r2 r3)
qed

section \<open>Loading the same dataset twice\<close>













































text \<open>
  A second load of the same dataset into the grid the first load returned raises: the
  attributes the first load deleted are absent when the second comes to delete them.
\<close>

lemma load_twice_raises:
  "attribute_of topology_dimension
     (case load_grid_from_nc_dataset sample_externals grid2d_dataset fresh_sgrid None of
        Inl e \<Rightarrow> Inl e
      | Inr grid \<Rightarrow> load_grid_from_nc_dataset sample_externals grid2d_dataset grid None) =
   Inl (AttributeError ''volume_padding'')"
  by code_simp

end
